theory Spec2Isabelle
  imports Main "HOL-Library.Word"
begin

section \<open>Values shared by the modules\<close>

type_synonym byte = "8 word"
type_synonym bytes = "byte list"

text \<open>
  A JavaScript value that may be \<^verbatim>\<open>undefined\<close> or \<^verbatim>\<open>null\<close>. The loose comparison
  \<^verbatim>\<open>v == null\<close> holds for both, and both are falsy.
\<close>

datatype 'a js = Undefined | Null | Val 'a

text \<open>
  Dictionaries of the WebCrypto interface (algorithm parameters, JSON web keys) are
  JavaScript objects; \<open>JObject\<close> lists their properties in order.
\<close>

datatype jsvalue =
    JString string
  | JNumber int
  | JBool bool
  | JBytes bytes
  | JObject "(string \<times> jsvalue) list"

type_synonym jsonWebKey = jsvalue

text \<open>\<^verbatim>\<open>obj[name]\<close> on a dictionary: the first property of that name, else \<^verbatim>\<open>undefined\<close>.\<close>

fun property :: "jsvalue \<Rightarrow> string \<Rightarrow> jsvalue js" where
  "property (JObject ps) name = (case map_of ps name of None \<Rightarrow> Undefined | Some v \<Rightarrow> Val v)"
| "property v name = Undefined"

text \<open>
  A \<^verbatim>\<open>CryptoKey\<close>: its four visible attributes and the key material behind the handle.
\<close>

datatype keyType = Public | Private | Secret

record cryptoKey =
  key_type :: keyType
  extractable :: bool
  algorithm :: jsvalue
  usages :: "string list"
  handle :: bytes

text \<open>
  Every way in which a promise of the program does not resolve. The constructors are the
  \<^verbatim>\<open>throw\<close> statements and rejections of the sources, the exceptions of the JavaScript
  run time that the sources can provoke, and \<open>Unsettled\<close> for a promise that neither
  resolves nor rejects (an exception inside a storage callback is lost, and the promise
  built around the callback stays pending).
\<close>

datatype error =
    LastError string
    \<comment> \<open>\<^verbatim>\<open>rej(chrome.runtime.lastError)\<close>\<close>
  | NoKeyAvailable string
    \<comment> \<open>\<^verbatim>\<open>throw new Error(`No ${identifier} key available to pop`)\<close>\<close>
  | CredentialExists string
    \<comment> \<open>\<^verbatim>\<open>throw new Error(`credential with id ${encCredId} already exists`)\<close>\<close>
  | CredentialNotFound "bytes list"
    \<comment> \<open>\<^verbatim>\<open>throw new Error(`credential with id ${JSON.stringify(allowCredentials)} not found`)\<close>\<close>
  | TypeError
    \<comment> \<open>a property read on \<^verbatim>\<open>null\<close> or \<^verbatim>\<open>undefined\<close>\<close>
  | OperationError
    \<comment> \<open>WebCrypto: the operation failed, as AES-GCM does on a wrong key or altered data\<close>
  | InvalidAccessError
    \<comment> \<open>WebCrypto: the key does not allow the operation\<close>
  | DataError
    \<comment> \<open>WebCrypto: the key data does not fit the format\<close>
  | NotSupportedError
    \<comment> \<open>WebCrypto: the algorithm is not supported\<close>
  | SyntaxError
    \<comment> \<open>\<^verbatim>\<open>JSON.parse\<close> on a text that is not JSON\<close>
  | InvalidCharacterError
    \<comment> \<open>\<^verbatim>\<open>atob\<close> on a text that is not base64\<close>
  | QuotaExceededError
    \<comment> \<open>\<^verbatim>\<open>getRandomValues\<close> asked for more than 65536 bytes\<close>
  | ModuleError string
    \<comment> \<open>an error thrown by a module of the repository whose source is not at hand\<close>
  | Unsettled

text \<open>
  The constants of \<^verbatim>\<open>./constants\<close>. The module is not among the sources, so its values
  are parameters of every definition that reads them.
\<close>

record constants =
  PIN :: string
  saltLength :: nat
  ivLength :: nat
  keyExportFormat :: string
  BACKUP_KEY :: string
  BD_ENDPOINT :: string
  DEFAULT_BD_ENDPOINT :: string

section \<open>The browser's storage\<close>

text \<open>
  What the synchronised store holds: the entries of a key pool, \<^verbatim>\<open>{key, id}\<close> with a
  JSON web key, and the delegations.
\<close>

record exportKey =
  export_key :: jsonWebKey
  export_id :: string

record delegation =
  signature :: string
  backupId :: string
  replacementId :: string
  replacementKey :: jsonWebKey

text \<open>
  \<^verbatim>\<open>chrome.storage.sync\<close> is one namespace of JSON texts under identifiers. Every text
  the sources write there is that of an array: of pool entries (\<open>storePSKKeys\<close>,
  \<open>storeBackupKeys\<close>) or of delegations (\<open>storeDelegations\<close>). An item of a stored
  array is one or the other; a property that an item does not have reads as
  \<^verbatim>\<open>undefined\<close>.
\<close>

datatype syncItem = KeyItem exportKey | DelegationItem delegation

fun item_backupId :: "syncItem \<Rightarrow> string js" where
  "item_backupId (DelegationItem d) = Val (backupId d)"
| "item_backupId (KeyItem k) = Undefined"

fun item_replacementId :: "syncItem \<Rightarrow> string js" where
  "item_replacementId (DelegationItem d) = Val (replacementId d)"
| "item_replacementId (KeyItem k) = Undefined"

text \<open>
  \<open>lastError\<close> is \<^verbatim>\<open>chrome.runtime.lastError\<close> as the callback of a storage call sees
  it: when it is set, the call has failed. \<open>storage_local\<close> is \<^verbatim>\<open>chrome.storage.local\<close>;
  every value the sources put there is a string (an endpoint, or a JSON text).
  \<open>storage_sync\<close> is \<^verbatim>\<open>chrome.storage.sync\<close>: for each identifier the array whose JSON
  text is stored there, reading \<^verbatim>\<open>JSON.parse\<close> after \<^verbatim>\<open>JSON.stringify\<close> as the
  identity on these arrays. \<open>sync_wrapped\<close> is the store of the module \<^verbatim>\<open>./storage\<close>,
  which is not among the sources: the wrapped private keys under their credential ids.
  \<open>random\<close> is the stream of bytes that \<^verbatim>\<open>crypto.getRandomValues\<close> and key generation
  will draw next.
\<close>

record chrome =
  lastError :: "string option"
  storage_local :: "string \<rightharpoonup> string"
  storage_sync :: "string \<rightharpoonup> syncItem list"
  sync_wrapped :: "string \<rightharpoonup> string"
  random :: "nat \<Rightarrow> byte"

text \<open>
  Asynchronous code: a computation on the browser's state that resolves with a value or
  does not. \<open>await m f\<close> is \<^verbatim>\<open>const x = await m; f(x)\<close>: when \<open>m\<close> does not
  resolve, neither does the whole, and the state is as \<open>m\<close> left it.
\<close>

type_synonym 'a promise = "chrome \<Rightarrow> (error + 'a) \<times> chrome"

definition await :: "'a promise \<Rightarrow> ('a \<Rightarrow> 'b promise) \<Rightarrow> 'b promise" where
  "await m f st = (case m st of (Inl e, st') \<Rightarrow> (Inl e, st') | (Inr x, st') \<Rightarrow> f x st')"

definition resolve :: "'a \<Rightarrow> 'a promise" where
  "resolve x st = (Inr x, st)"

definition reject :: "error \<Rightarrow> 'a promise" where
  "reject e st = (Inl e, st)"

text \<open>A computation that only reads the state, and one that does not depend on it.\<close>

definition reading :: "(chrome \<Rightarrow> error + 'a) \<Rightarrow> 'a promise" where
  "reading f st = (f st, st)"

definition settled :: "error + 'a \<Rightarrow> 'a promise" where
  "settled r st = (r, st)"

text \<open>
  \<^verbatim>\<open>chrome.storage.local.get({[k]: null}, callback)\<close>: the object handed to the callback
  has the single property \<open>k\<close>, holding the stored value, or the default \<^verbatim>\<open>null\<close> when
  nothing is stored. The object is modelled by its property read \<^verbatim>\<open>resp[k']\<close>.
\<close>

definition storage_get_default :: "(string \<rightharpoonup> string) \<Rightarrow> string \<Rightarrow> string \<Rightarrow> string js" where
  "storage_get_default items k k' =
     (if k' = k then (case items k of None \<Rightarrow> Null | Some v \<Rightarrow> Val v) else Undefined)"

section \<open>PSKStorage: the endpoint slot\<close>

definition getBDEndpoint :: "constants \<Rightarrow> chrome \<Rightarrow> error + string" where
  "getBDEndpoint c st =
     (let resp = storage_get_default (storage_local st) (BD_ENDPOINT c) in
      case lastError st of
        Some e \<Rightarrow> Inl (LastError e)
      | None \<Rightarrow>
          (case resp (BACKUP_KEY c) of
             Val v \<Rightarrow> Inr v
           | _ \<Rightarrow> Inr (DEFAULT_BD_ENDPOINT c)))"

definition setBDEndpoint :: "constants \<Rightarrow> string \<Rightarrow> unit promise" where
  "setBDEndpoint c endpoint st =
     (case lastError st of
        Some e \<Rightarrow> (Inl (LastError e), st)
      | None \<Rightarrow> (Inr (), st\<lparr>storage_local := (storage_local st)(BD_ENDPOINT c \<mapsto> endpoint)\<rparr>))"

section \<open>WebCrypto\<close>

text \<open>
  \<^verbatim>\<open>window.crypto.subtle\<close> is the browser's, not the repository's: its operations are
  parameters. Each takes the arguments of the JavaScript call, in the order of the call.
\<close>

datatype keyData = Jwk jsonWebKey | Raw bytes

record subtle =
  importKey :: "string \<Rightarrow> keyData \<Rightarrow> jsvalue \<Rightarrow> bool \<Rightarrow> string list \<Rightarrow> error + cryptoKey"
  exportKey :: "string \<Rightarrow> cryptoKey \<Rightarrow> error + jsonWebKey"
  deriveKey :: "jsvalue \<Rightarrow> cryptoKey \<Rightarrow> jsvalue \<Rightarrow> bool \<Rightarrow> string list \<Rightarrow> error + cryptoKey"
  wrapKey :: "string \<Rightarrow> cryptoKey \<Rightarrow> cryptoKey \<Rightarrow> jsvalue \<Rightarrow> error + bytes"
  unwrapKey :: "string \<Rightarrow> bytes \<Rightarrow> cryptoKey \<Rightarrow> jsvalue \<Rightarrow> jsvalue \<Rightarrow> bool \<Rightarrow> string list
                  \<Rightarrow> error + cryptoKey"
  digest :: "string \<Rightarrow> bytes \<Rightarrow> error + bytes"
  verify :: "jsvalue \<Rightarrow> cryptoKey \<Rightarrow> bytes \<Rightarrow> bytes \<Rightarrow> error + bool"

text \<open>
  \<^verbatim>\<open>crypto.getRandomValues(new Uint8Array(n))\<close>: the next \<open>n\<close> bytes of the stream; the
  browser refuses more than 65536 bytes.
\<close>

definition getRandomValues :: "nat \<Rightarrow> bytes promise" where
  "getRandomValues n st =
     (if n > 65536 then (Inl QuotaExceededError, st)
      else (Inr (map (random st) [0..<n]), st\<lparr>random := (\<lambda>i. random st (i + n))\<rparr>))"

section \<open>Text, JSON and typed arrays\<close>

text \<open>
  \<^verbatim>\<open>TextEncoder\<close>, \<^verbatim>\<open>TextDecoder\<close>, \<^verbatim>\<open>JSON\<close> and \<^verbatim>\<open>window.btoa\<close> are the browser's, and
  parameters.
\<close>

record encoding =
  TextEncoder_encode :: "string \<Rightarrow> bytes"
  TextDecoder_decode :: "bytes \<Rightarrow> string"
  JSON_stringify :: "jsvalue \<Rightarrow> string"
  JSON_parse :: "string \<Rightarrow> error + jsvalue"
  btoa :: "string \<Rightarrow> error + string"

text \<open>
  The functions of \<^verbatim>\<open>./utils\<close> are called by the sources but are not among them. The
  base64 codec and the origin parser are parameters; the flag is \<^verbatim>\<open>urlEncoded\<close>, false
  when the call leaves it out.
\<close>

record utils =
  base64ToByteArray :: "string \<Rightarrow> bool \<Rightarrow> error + bytes"
  byteArrayToBase64 :: "bytes \<Rightarrow> bool \<Rightarrow> string"
  getDomainFromOrigin :: "string \<Rightarrow> string"

text \<open>
  Modelled from the spec: \<^verbatim>\<open>concatenate\<close> of \<^verbatim>\<open>./utils\<close> is not among the sources. The
  spec lays the payload out as the header bytes followed by the salt, the IV, the
  algorithm descriptor and the wrapped key, so \<open>concatenate\<close> joins its arguments in
  order.
\<close>

definition concatenate :: "bytes list \<Rightarrow> bytes" where
  "concatenate arrays = concat arrays"

text \<open>\<^verbatim>\<open>Uint8Array.of(...)\<close> stores each number modulo 256.\<close>

definition Uint8Array_of :: "nat list \<Rightarrow> bytes" where
  "Uint8Array_of ns = map word_of_nat ns"

text \<open>
  \<^verbatim>\<open>arr[i]\<close> on a typed array is \<^verbatim>\<open>undefined\<close> beyond the end, and a sum with
  \<^verbatim>\<open>undefined\<close> is \<^verbatim>\<open>NaN\<close>: both are \<open>None\<close> here. \<^verbatim>\<open>subarray(begin, end)\<close> reads
  \<^verbatim>\<open>NaN\<close> as 0 and clamps both bounds to the length; without \<^verbatim>\<open>end\<close> it runs to the end.
\<close>

definition at_index :: "bytes \<Rightarrow> nat \<Rightarrow> nat option" where
  "at_index arr i = (if i < length arr then Some (unat (arr ! i)) else None)"

fun plus_number :: "nat option \<Rightarrow> nat option \<Rightarrow> nat option" where
  "plus_number (Some a) (Some b) = Some (a + b)"
| "plus_number a b = None"

definition to_integer :: "nat option \<Rightarrow> nat" where
  "to_integer n = (case n of None \<Rightarrow> 0 | Some k \<Rightarrow> k)"

definition subarray :: "bytes \<Rightarrow> nat option \<Rightarrow> nat option \<Rightarrow> bytes" where
  "subarray arr begin end =
     (let b = min (to_integer begin) (length arr);
          e = min (to_integer end) (length arr)
      in take (e - b) (drop b arr))"

definition subarray_from :: "bytes \<Rightarrow> nat option \<Rightarrow> bytes" where
  "subarray_from arr begin = drop (min (to_integer begin) (length arr)) arr"

section \<open>PublicKeyCredentialSource: wrapping the private key\<close>

definition getWrappingKey :: "subtle \<Rightarrow> encoding \<Rightarrow> string \<Rightarrow> bytes \<Rightarrow> error + cryptoKey" where
  "getWrappingKey w enc pin salt =
     (case importKey w ''raw'' (Raw (TextEncoder_encode enc pin))
             (JObject [(''name'', JString ''PBKDF2''), (''length'', JNumber 256)])
             False [''deriveBits'', ''deriveKey''] of
        Inl e \<Rightarrow> Inl e
      | Inr derivationKey \<Rightarrow>
          (let pbkdf2Params = JObject [(''hash'', JString ''SHA-256''),
                 (''iterations'', JNumber 100000), (''name'', JString ''PBKDF2''),
                 (''salt'', JBytes salt)]
           in deriveKey w pbkdf2Params derivationKey
                (JObject [(''name'', JString ''AES-GCM''), (''length'', JNumber 256)])
                True [''wrapKey'', ''unwrapKey'']))"

record publicKeyCredentialSource =
  cred_id :: string
  privateKey :: cryptoKey
  cred_rpId :: string
  userHandle :: "bytes js"
  cred_type :: string

text \<open>The object that \<^verbatim>\<open>export()\<close> returns and \<^verbatim>\<open>import(json)\<close> reads.\<close>

record credentialJSON =
  json_id :: string
  json_privateKey :: string
  json_rpId :: string
  json_userHandle :: "bytes js"
  json_type :: string

text \<open>The constructor: a falsy \<open>userHandle\<close> becomes \<^verbatim>\<open>null\<close>.\<close>

definition new_PublicKeyCredentialSource ::
  "string \<Rightarrow> cryptoKey \<Rightarrow> string \<Rightarrow> bytes js \<Rightarrow> publicKeyCredentialSource" where
  "new_PublicKeyCredentialSource i k r u =
     \<lparr>cred_id = i, privateKey = k, cred_rpId = r,
      userHandle = (case u of Val h \<Rightarrow> Val h | _ \<Rightarrow> Null),
      cred_type = ''public-key''\<rparr>"

definition AesGcmParams :: "bytes \<Rightarrow> jsvalue" where
  "AesGcmParams iv = JObject [(''iv'', JBytes iv), (''name'', JString ''AES-GCM'')]"

definition PublicKeyCredentialSource_export :: "subtle \<Rightarrow> encoding \<Rightarrow> utils \<Rightarrow> constants \<Rightarrow> publicKeyCredentialSource
                        \<Rightarrow> credentialJSON promise" where
  "PublicKeyCredentialSource_export w enc u c this =
     await (getRandomValues (saltLength c)) (\<lambda>salt.
     await (settled (getWrappingKey w enc (PIN c) salt)) (\<lambda>wrappingKey.
     await (getRandomValues (ivLength c)) (\<lambda>iv.
     let wrapAlgorithm = AesGcmParams iv in
     await (settled (wrapKey w (keyExportFormat c) (privateKey this) wrappingKey wrapAlgorithm))
       (\<lambda>wrappedKey.
     let keyAlgorithm = TextEncoder_encode enc (JSON_stringify enc (algorithm (privateKey this)));
         payload = concatenate
           [Uint8Array_of [saltLength c, ivLength c, length keyAlgorithm],
            salt, iv, keyAlgorithm, wrappedKey]
     in resolve
          \<lparr>json_id = cred_id this,
           json_privateKey = byteArrayToBase64 u payload False,
           json_rpId = cred_rpId this,
           json_userHandle = userHandle this,
           json_type = cred_type this\<rparr>))))"

definition PublicKeyCredentialSource_import :: "subtle \<Rightarrow> encoding \<Rightarrow> utils \<Rightarrow> constants \<Rightarrow> credentialJSON
                        \<Rightarrow> error + publicKeyCredentialSource" where
  "PublicKeyCredentialSource_import w enc u c json =
     (case base64ToByteArray u (json_privateKey json) False of
        Inl e \<Rightarrow> Inl e
      | Inr keyPayload \<Rightarrow>
          (let saltByteLength = at_index keyPayload 0;
               ivByteLength = at_index keyPayload 1;
               keyAlgorithmByteLength = at_index keyPayload 2;
               offset = Some 3;
               salt = subarray keyPayload offset (plus_number offset saltByteLength);
               offset = plus_number offset saltByteLength;
               iv = subarray keyPayload offset (plus_number offset ivByteLength);
               offset = plus_number offset ivByteLength;
               keyAlgorithmBytes =
                 subarray keyPayload offset (plus_number offset keyAlgorithmByteLength);
               offset = plus_number offset keyAlgorithmByteLength;
               keyBytes = subarray_from keyPayload offset
           in case getWrappingKey w enc (PIN c) salt of
                Inl e \<Rightarrow> Inl e
              | Inr wrappingKey \<Rightarrow>
                  (let wrapAlgorithm = AesGcmParams iv in
                   case JSON_parse enc (TextDecoder_decode enc keyAlgorithmBytes) of
                     Inl e \<Rightarrow> Inl e
                   | Inr unwrappingKeyAlgorithm \<Rightarrow>
                       (case unwrapKey w (keyExportFormat c) keyBytes wrappingKey
                               wrapAlgorithm unwrappingKeyAlgorithm True [''sign''] of
                          Inl e \<Rightarrow> Inl e
                        | Inr privateKey' \<Rightarrow>
                            Inr (new_PublicKeyCredentialSource (json_id json) privateKey'
                                   (json_rpId json) (json_userHandle json))))))"

section \<open>Notions used to state the properties of the wrapped payload\<close>

text \<open>
  The salt and the IV that \<^verbatim>\<open>export()\<close> draws when it starts in state \<open>st\<close>, and the
  algorithm descriptor it writes: the UTF-8 bytes of the JSON text of the key's algorithm.
\<close>

definition drawn_salt :: "constants \<Rightarrow> chrome \<Rightarrow> bytes" where
  "drawn_salt c st = map (random st) [0..<saltLength c]"

definition drawn_iv :: "constants \<Rightarrow> chrome \<Rightarrow> bytes" where
  "drawn_iv c st = map (\<lambda>i. random st (i + saltLength c)) [0..<ivLength c]"

definition descriptor :: "encoding \<Rightarrow> cryptoKey \<Rightarrow> bytes" where
  "descriptor enc k = TextEncoder_encode enc (JSON_stringify enc (algorithm k))"

text \<open>
  What \<^verbatim>\<open>import(json)\<close> does once the payload is cut into its four segments: the rest
  of its body, as a function of the segments.
\<close>

definition unwrap_segments ::
  "subtle \<Rightarrow> encoding \<Rightarrow> constants \<Rightarrow> credentialJSON \<Rightarrow> bytes \<Rightarrow> bytes \<Rightarrow> bytes \<Rightarrow> bytes
     \<Rightarrow> error + publicKeyCredentialSource" where
  "unwrap_segments w enc c json salt iv keyAlgorithmBytes keyBytes =
     (case getWrappingKey w enc (PIN c) salt of
        Inl e \<Rightarrow> Inl e
      | Inr wrappingKey \<Rightarrow>
          (case JSON_parse enc (TextDecoder_decode enc keyAlgorithmBytes) of
             Inl e \<Rightarrow> Inl e
           | Inr unwrappingKeyAlgorithm \<Rightarrow>
               (case unwrapKey w (keyExportFormat c) keyBytes wrappingKey
                       (AesGcmParams iv) unwrappingKeyAlgorithm True [''sign''] of
                  Inl e \<Rightarrow> Inl e
                | Inr k \<Rightarrow>
                    Inr (new_PublicKeyCredentialSource (json_id json) k
                           (json_rpId json) (json_userHandle json)))))"

section \<open>Assumptions on the browser's functions\<close>

text \<open>
  The properties of WebCrypto, of the text codecs and of the base64 codec that the
  theorems on the wrapped payload assume. The header has one byte for each length, so the
  lengths must be below 256. AES-GCM is taken as ideal: unwrapping under the wrapping key
  returns the key that was wrapped, with the attributes \<^verbatim>\<open>import(json)\<close> asks for, and
  unwrapping under a key of other material fails with an \<open>OperationError\<close>. Nothing is
  assumed of PBKDF2: the keys it derives are named in the statements.
\<close>

definition header_fits :: "encoding \<Rightarrow> constants \<Rightarrow> cryptoKey \<Rightarrow> bool" where
  "header_fits enc c k \<longleftrightarrow>
     saltLength c < 256 \<and> ivLength c < 256 \<and> length (descriptor enc k) < 256"

definition base64_inverse :: "utils \<Rightarrow> bool" where
  "base64_inverse u \<longleftrightarrow>
     (\<forall>payload url. base64ToByteArray u (byteArrayToBase64 u payload url) url = Inr payload)"

definition descriptor_parses :: "encoding \<Rightarrow> cryptoKey \<Rightarrow> bool" where
  "descriptor_parses enc k \<longleftrightarrow>
     JSON_parse enc (TextDecoder_decode enc (descriptor enc k)) = Inr (algorithm k)"

definition unwrap_inverts_wrap :: "subtle \<Rightarrow> string \<Rightarrow> bool" where
  "unwrap_inverts_wrap w format \<longleftrightarrow>
     (\<forall>k wrappingKey iv wrapped.
        ''sign'' \<in> set (usages k) \<longrightarrow>
        wrapKey w format k wrappingKey (AesGcmParams iv) = Inr wrapped \<longrightarrow>
        unwrapKey w format wrapped wrappingKey (AesGcmParams iv) (algorithm k) True [''sign'']
          = Inr (k\<lparr>extractable := True, usages := [''sign'']\<rparr>))"

definition rejects_other_key :: "subtle \<Rightarrow> string \<Rightarrow> bool" where
  "rejects_other_key w format \<longleftrightarrow>
     (\<forall>k wrappingKey other iv wrapped alg ex us.
        wrapKey w format k wrappingKey (AesGcmParams iv) = Inr wrapped \<longrightarrow>
        handle other \<noteq> handle wrappingKey \<longrightarrow>
        unwrapKey w format wrapped other (AesGcmParams iv) alg ex us = Inl OperationError)"

section \<open>Key pools and delegations in the synchronised store\<close>

definition BACKUP :: string where "BACKUP = ''backup''"
definition RECOVERY :: string where "RECOVERY = ''recovery''"
definition DELEGATION :: string where "DELEGATION = ''delegation''"

record pskKey =
  psk_key :: cryptoKey
  psk_id :: string

definition parseJWK :: "subtle \<Rightarrow> jsonWebKey \<Rightarrow> error + cryptoKey" where
  "parseJWK w jwk =
     importKey w ''jwk'' (Jwk jwk)
       (JObject [(''name'', JString ''ECDSA''), (''namedCurve'', JString ''P-256'')]) True []"

text \<open>The loop of \<open>storePSKKeys\<close>; a key that does not export rejects the whole call.\<close>

fun exportKeys :: "subtle \<Rightarrow> pskKey list \<Rightarrow> error + exportKey list" where
  "exportKeys w [] = Inr []"
| "exportKeys w (k # ks) =
     (case exportKey w ''jwk'' (psk_key k) of
        Inl e \<Rightarrow> Inl e
      | Inr parsedKey \<Rightarrow>
          (case exportKeys w ks of
             Inl e \<Rightarrow> Inl e
           | Inr rest \<Rightarrow> Inr (\<lparr>export_key = parsedKey, export_id = psk_id k\<rparr> # rest)))"

definition storePSKKeys :: "subtle \<Rightarrow> string \<Rightarrow> pskKey list \<Rightarrow> unit promise" where
  "storePSKKeys w identifier psk st =
     (case exportKeys w psk of
        Inl e \<Rightarrow> (Inl e, st)
      | Inr pskJSON \<Rightarrow>
          (case lastError st of
             Some e \<Rightarrow> (Inl (LastError e), st)
           | None \<Rightarrow>
               (Inr (), st\<lparr>storage_sync := (storage_sync st)(identifier \<mapsto> map KeyItem pskJSON)\<rparr>)))"

definition storeDelegations :: "delegation list \<Rightarrow> unit promise" where
  "storeDelegations del st =
     (case lastError st of
        Some e \<Rightarrow> (Inl (LastError e), st)
      | None \<Rightarrow>
          (Inr (), st\<lparr>storage_sync := (storage_sync st)(DELEGATION \<mapsto> map DelegationItem del)\<rparr>))"

text \<open>
  The loop of \<open>fetchPSKKeys\<close>. It runs inside the callback of the storage call, where an
  exception of \<open>parseJWK\<close> is lost: the promise then never settles. An item that is not a
  pool entry has no property \<^verbatim>\<open>key\<close>, and \<^verbatim>\<open>importKey\<close> refuses the key data
  \<^verbatim>\<open>undefined\<close>.
\<close>

fun parseKeys :: "subtle \<Rightarrow> syncItem list \<Rightarrow> error + pskKey list" where
  "parseKeys w [] = Inr []"
| "parseKeys w (DelegationItem d # ks) = Inl Unsettled"
| "parseKeys w (KeyItem k # ks) =
     (case parseJWK w (export_key k) of
        Inl e \<Rightarrow> Inl Unsettled
      | Inr parsedKey \<Rightarrow>
          (case parseKeys w ks of
             Inl e \<Rightarrow> Inl e
           | Inr rest \<Rightarrow> Inr (\<lparr>psk_key = parsedKey, psk_id = export_id k\<rparr> # rest)))"

text \<open>
  With nothing stored under the identifier, \<^verbatim>\<open>JSON.parse(undefined)\<close> throws inside the
  callback, and the promise never settles.
\<close>

definition fetchPSKKeys :: "subtle \<Rightarrow> string \<Rightarrow> chrome \<Rightarrow> error + pskKey list" where
  "fetchPSKKeys w identifier st =
     (case lastError st of
        Some e \<Rightarrow> Inl (LastError e)
      | None \<Rightarrow>
          (case storage_sync st identifier of
             None \<Rightarrow> Inl Unsettled
           | Some exportedKey \<Rightarrow> parseKeys w exportedKey))"

definition fetchDelegations :: "chrome \<Rightarrow> error + syncItem list" where
  "fetchDelegations st =
     (case lastError st of
        Some e \<Rightarrow> Inl (LastError e)
      | None \<Rightarrow>
          (case storage_sync st DELEGATION of
             None \<Rightarrow> Inl Unsettled
           | Some delegations \<Rightarrow> Inr delegations))"

definition popPSKKey :: "subtle \<Rightarrow> string \<Rightarrow> pskKey promise" where
  "popPSKKey w identifier =
     await (reading (fetchPSKKeys w identifier)) (\<lambda>pskKeys.
       if length pskKeys = 0 then reject (NoKeyAvailable identifier)
       else
         let key = last pskKeys; pskKeys = butlast pskKeys in
         await (storePSKKeys w identifier pskKeys) (\<lambda>_.
           resolve key))"

definition popBackupKey :: "subtle \<Rightarrow> pskKey promise" where
  "popBackupKey w = popPSKKey w BACKUP"

text \<open>\<^verbatim>\<open>arr[0]\<close>: the first element, \<^verbatim>\<open>undefined\<close> on an empty array.\<close>

fun first_element :: "'a list \<Rightarrow> 'a js" where
  "first_element [] = Undefined"
| "first_element (x # xs) = Val x"

definition getDelegation :: "string \<Rightarrow> chrome \<Rightarrow> error + syncItem js" where
  "getDelegation credentialId st =
     (case fetchDelegations st of
        Inl e \<Rightarrow> Inl e
      | Inr del \<Rightarrow>
          (let rec = filter (\<lambda>x. item_backupId x = Val credentialId) del in
           Inr (if length rec \<noteq> 0 then first_element del else Null)))"

text \<open>
  The id asked for is the \<^verbatim>\<open>replacementId\<close> read from the item that \<open>getDelegation\<close>
  returned, which is \<^verbatim>\<open>undefined\<close> when the item has none; no id equals that.
\<close>

definition getRecoveryKey :: "subtle \<Rightarrow> string js \<Rightarrow> chrome \<Rightarrow> error + pskKey js" where
  "getRecoveryKey w credentialId st =
     (case fetchPSKKeys w RECOVERY st of
        Inl e \<Rightarrow> Inl e
      | Inr rks \<Rightarrow>
          (let rk = filter (\<lambda>x. Val (psk_id x) = credentialId) rks in
           Inr (if length rk \<noteq> 0 then first_element rk else Null)))"

record recoveryOptions =
  recoveryKey :: "pskKey js"
  opt_delegation :: syncItem

text \<open>
  \<^verbatim>\<open>del.replacementId\<close> is read without a test of \<open>del\<close>: on \<^verbatim>\<open>null\<close> it throws a
  \<open>TypeError\<close>.
\<close>

definition getRecoveryOptions :: "subtle \<Rightarrow> string \<Rightarrow> chrome \<Rightarrow> error + recoveryOptions" where
  "getRecoveryOptions w backupCredentialId st =
     (case getDelegation backupCredentialId st of
        Inl e \<Rightarrow> Inl e
      | Inr (Val del) \<Rightarrow>
          (case getRecoveryKey w (item_replacementId del) st of
             Inl e \<Rightarrow> Inl e
           | Inr rk \<Rightarrow> Inr \<lparr>recoveryKey = rk, opt_delegation = del\<rparr>)
      | Inr _ \<Rightarrow> Inl TypeError)"

section \<open>The modules ./crypto and cbor\<close>

text \<open>
  \<^verbatim>\<open>./crypto\<close> (the key abstraction \<^verbatim>\<open>ICOSECompatibleKey\<close> and its two constructors) and
  the \<^verbatim>\<open>cbor\<close> package are not among the sources: their functions are parameters. A
  function that generates a key or signs draws from the random stream and touches nothing
  else of the browser's state.
\<close>

record compatibleKey =
  ck_algorithm :: int
  ck_privateKey :: cryptoKey
  ck_publicKey :: "cryptoKey js"

record pubKeyCredParam =
  param_alg :: int
  param_type :: string

type_synonym 'a drawing = "(nat \<Rightarrow> byte) \<Rightarrow> (error + 'a) \<times> (nat \<Rightarrow> byte)"

definition draw :: "'a drawing \<Rightarrow> 'a promise" where
  "draw f st = (case f (random st) of (r, rest) \<Rightarrow> (r, st\<lparr>random := rest\<rparr>))"

record cryptoModule =
  getCompatibleKey :: "pubKeyCredParam list \<Rightarrow> compatibleKey drawing"
  getCompatibleKeyFromCryptoKey :: "cryptoKey \<Rightarrow> error + compatibleKey"
  generateAuthenticatorData :: "compatibleKey \<Rightarrow> string \<Rightarrow> nat \<Rightarrow> bytes \<Rightarrow> bytes js \<Rightarrow> error + bytes"
  generateClientData :: "compatibleKey \<Rightarrow> bytes \<Rightarrow> jsvalue \<Rightarrow> error + string"
  sign :: "compatibleKey \<Rightarrow> bytes \<Rightarrow> bytes drawing"
  toCOSE :: "compatibleKey \<Rightarrow> cryptoKey \<Rightarrow> jsvalue"

record cbor =
  CBOR_encodeCanonical :: "jsvalue \<Rightarrow> bytes"
  CBOR_encode :: "jsvalue \<Rightarrow> bytes"

text \<open>Everything a request is processed against, apart from the browser's state.\<close>

record env =
  env_subtle :: subtle
  env_encoding :: encoding
  env_utils :: utils
  env_constants :: constants
  env_crypto :: cryptoModule
  env_cbor :: cbor

section \<open>The module ./storage\<close>

text \<open>
  Modelled from the spec: \<^verbatim>\<open>keyExists\<close>, \<^verbatim>\<open>saveKey\<close> and \<^verbatim>\<open>fetchKey\<close> of \<^verbatim>\<open>./storage\<close>
  are called by the request flows but are not among the sources. By the spec the store
  keeps, under the credential id, the private key wrapped with the caller's PIN in the
  payload format of the key-wrap codec, and a fetch unwraps it with the supplied PIN. The
  codec is the one of \<^verbatim>\<open>export()\<close> and \<^verbatim>\<open>import(json)\<close>, run with the caller's PIN in the
  place of the constant.
\<close>

definition keyExists :: "string \<Rightarrow> chrome \<Rightarrow> error + bool" where
  "keyExists key st =
     (case lastError st of
        Some e \<Rightarrow> Inl (LastError e)
      | None \<Rightarrow> Inr (sync_wrapped st key \<noteq> None))"

definition saveKey :: "env \<Rightarrow> string \<Rightarrow> cryptoKey \<Rightarrow> string \<Rightarrow> unit promise" where
  "saveKey env key privateKey' pin =
     await (PublicKeyCredentialSource_export (env_subtle env) (env_encoding env) (env_utils env)
              ((env_constants env)\<lparr>PIN := pin\<rparr>)
              \<lparr>cred_id = key, privateKey = privateKey', cred_rpId = [], userHandle = Null,
               cred_type = ''public-key''\<rparr>) (\<lambda>json st.
       case lastError st of
         Some e \<Rightarrow> (Inl (LastError e), st)
       | None \<Rightarrow>
           (Inr (), st\<lparr>sync_wrapped := (sync_wrapped st)(key \<mapsto> json_privateKey json)\<rparr>))"

definition fetchKey :: "env \<Rightarrow> string \<Rightarrow> string \<Rightarrow> chrome \<Rightarrow> error + cryptoKey" where
  "fetchKey env key pin st =
     (case lastError st of
        Some e \<Rightarrow> Inl (LastError e)
      | None \<Rightarrow>
          (case sync_wrapped st key of
             None \<Rightarrow> Inl (ModuleError ''key not found'')
           | Some payload \<Rightarrow>
               (case PublicKeyCredentialSource_import (env_subtle env) (env_encoding env)
                       (env_utils env) ((env_constants env)\<lparr>PIN := pin\<rparr>)
                       \<lparr>json_id = key, json_privateKey = payload, json_rpId = [],
                        json_userHandle = Null, json_type = ''public-key''\<rparr> of
                  Inl e \<Rightarrow> Inl e
                | Inr source \<Rightarrow> Inr (privateKey source))))"

section \<open>The recovery extension\<close>

definition PSK :: string where "PSK = ''psk''"

definition pskSetupExtensionOutput :: "env \<Rightarrow> pskKey \<Rightarrow> error + bytes" where
  "pskSetupExtensionOutput env backupKey =
     (case getCompatibleKeyFromCryptoKey (env_crypto env) (psk_key backupKey) of
        Inl e \<Rightarrow> Inl e
      | Inr compatibleKey \<Rightarrow>
          (let coseKey = CBOR_encode (env_cbor env)
                           (toCOSE (env_crypto env) compatibleKey (psk_key backupKey));
               extOutput = JObject [(PSK, JBytes coseKey)]
           in Inr (CBOR_encode (env_cbor env) extOutput)))"

text \<open>
  Modelled from the spec: webauthn.ts imports \<^verbatim>\<open>BackupKey.get\<close> and
  \<^verbatim>\<open>createPSKSetupExtensionOutput\<close> from a version of \<^verbatim>\<open>./recovery\<close> that is not among
  the sources. By the spec the creation flow pops one backup key from the pool at this
  point, and the extension output is the COSE encoding of the backup key's public key
  under the reserved extension key, CBOR-encoded; the sources at hand have both, as
  \<open>popBackupKey\<close> and \<open>pskSetupExtensionOutput\<close>.
\<close>

definition BackupKey_get :: "env \<Rightarrow> pskKey promise" where
  "BackupKey_get env = popBackupKey (env_subtle env)"

definition createPSKSetupExtensionOutput :: "env \<Rightarrow> pskKey \<Rightarrow> error + bytes" where
  "createPSKSetupExtensionOutput env bckpKey = pskSetupExtensionOutput env bckpKey"

section \<open>Requests and responses\<close>

record rpEntity =
  rp_id :: "string js"
  rp_name :: string

record publicKeyCredentialCreationOptions =
  attestation :: "string js"
  creation_extensions :: "(string \<times> jsvalue) list js"
  rp :: rpEntity
  creation_challenge :: bytes
  pubKeyCredParams :: "pubKeyCredParam list"

record publicKeyCredentialDescriptor =
  descriptor_id :: bytes
  descriptor_type :: string

record publicKeyCredentialRequestOptions =
  allowCredentials :: "publicKeyCredentialDescriptor list js"
  request_extensions :: "(string \<times> jsvalue) list js"
  rpId :: "string js"
  request_challenge :: bytes

datatype authenticatorResponse =
    AttestationResponse (attestationObject: bytes) (clientDataJSON: bytes)
  | AssertionResponse (authenticatorData: bytes) (clientDataJSON: bytes)
      (response_signature: bytes) (response_userHandle: bytes)

record publicKeyCredential =
  pkc_id :: string
  rawId :: bytes
  response :: authenticatorResponse
  pkc_type :: string

text \<open>
  \<^verbatim>\<open>if (reqExt !== undefined) { if (reqExt.hasOwnProperty(PSK)) ... }\<close>: the extension is
  requested when the extension object has a property \<^verbatim>\<open>psk\<close>; on \<^verbatim>\<open>null\<close> the method
  call throws.
\<close>

definition requestsPSK :: "(string \<times> jsvalue) list js \<Rightarrow> error + bool" where
  "requestsPSK reqExt =
     (case reqExt of
        Undefined \<Rightarrow> Inr False
      | Null \<Rightarrow> Inl TypeError
      | Val properties \<Rightarrow> Inr (PSK \<in> set (map fst properties)))"

text \<open>\<^verbatim>\<open>a || b\<close> on strings: \<open>b\<close> when \<open>a\<close> is \<^verbatim>\<open>undefined\<close>, \<^verbatim>\<open>null\<close> or empty.\<close>

definition or_else :: "string js \<Rightarrow> string \<Rightarrow> string" where
  "or_else a b = (case a of Val s \<Rightarrow> (if s = [] then b else s) | _ \<Rightarrow> b)"

section \<open>The recovery flow\<close>

record recoveryMessage =
  backupCredId :: string
  delegationSignature :: bytes
  message_attestationObject :: bytes

definition RecoveryMessage_init ::
  "env \<Rightarrow> delegation \<Rightarrow> compatibleKey \<Rightarrow> string \<Rightarrow> error + recoveryMessage" where
  "RecoveryMessage_init env delegation' rkPub origin =
     (case base64ToByteArray (env_utils env) (signature delegation') False of
        Inl e \<Rightarrow> Inl e
      | Inr sig \<Rightarrow>
          (case base64ToByteArray (env_utils env) (replacementId delegation') False of
             Inl e \<Rightarrow> Inl e
           | Inr recoveryCredId \<Rightarrow>
               (case generateAuthenticatorData (env_crypto env) rkPub origin 0 recoveryCredId Null of
                  Inl e \<Rightarrow> Inl e
                | Inr authData \<Rightarrow>
                    Inr \<lparr>backupCredId = backupId delegation',
                         delegationSignature = sig,
                         message_attestationObject =
                           CBOR_encodeCanonical (env_cbor env)
                             (JObject [(''attStmt'', JObject []), (''authData'', JBytes authData),
                                       (''fmt'', JString ''none'')])\<rparr>)))"

text \<open>
  The recovery message is built by a call that is not awaited, and nothing reads it: an
  exception in it is lost and its value is unused. The caller's \<open>origin\<close> is overwritten
  before its first use. An item of the stored array that is not a delegation has no
  \<^verbatim>\<open>replacementKey\<close>, and \<^verbatim>\<open>importKey\<close> refuses the key data \<^verbatim>\<open>undefined\<close>, which
  it reads as a dictionary with no key type; such an item has no \<^verbatim>\<open>replacementId\<close>
  either, so that no recovery key is found for it and this branch is never reached.
\<close>

definition recover ::
  "env \<Rightarrow> string \<Rightarrow> publicKeyCredentialRequestOptions \<Rightarrow> string \<Rightarrow> publicKeyCredential js promise" where
  "recover env origin publicKeyRequestOptions pin =
     (case allowCredentials publicKeyRequestOptions of
        Val allow \<Rightarrow>
          (let origin = ''http://localhost:9005'' in
           case first_element allow of
             Val requestedCredential \<Rightarrow>
               (let backupCredId = descriptor_id requestedCredential;
                    encBackupCredId = byteArrayToBase64 (env_utils env) backupCredId True
                in
                await (reading (getRecoveryOptions (env_subtle env) encBackupCredId)) (\<lambda>recOps.
                case recoveryKey recOps of
                  Val rk \<Rightarrow>
                    await (settled (getCompatibleKeyFromCryptoKey (env_crypto env) (psk_key rk)))
                      (\<lambda>rkPrv.
                    case opt_delegation recOps of
                      KeyItem _ \<Rightarrow> reject DataError
                    | DelegationItem del \<Rightarrow>
                    await (settled (parseJWK (env_subtle env) (replacementKey del))) (\<lambda>rkPubRaw.
                    await (settled (getCompatibleKeyFromCryptoKey (env_crypto env) rkPubRaw))
                      (\<lambda>rkPub.
                    let recMessage = RecoveryMessage_init env del rkPub origin in
                    await (saveKey env (psk_id rk) (ck_privateKey rkPrv) pin) (\<lambda>_.
                    await (settled (generateClientData (env_crypto env) rkPrv
                             (request_challenge publicKeyRequestOptions)
                             (JObject [(''origin'', JString origin),
                                       (''tokenBinding'',
                                          JObject [(''status'', JString ''not-supported'')]),
                                       (''type'', JString ''webauthn.get'')]))) (\<lambda>clientData.
                    await (settled (btoa (env_encoding env) clientData)) (\<lambda>encoded.
                    await (settled (base64ToByteArray (env_utils env) encoded False))
                      (\<lambda>clientDataJSON'.
                    await (settled (digest (env_subtle env) ''SHA-256'' clientDataJSON'))
                      (\<lambda>clientDataHash.
                    let rpID = or_else (rpId publicKeyRequestOptions)
                                 (getDomainFromOrigin (env_utils env) origin) in
                    await (settled (generateAuthenticatorData (env_crypto env) rkPrv rpID 0 [] Null))
                      (\<lambda>authenticatorData'.
                    let concatData = authenticatorData' @ clientDataHash in
                    await (draw (sign (env_crypto env) rkPrv concatData)) (\<lambda>signature'.
                    await (settled (base64ToByteArray (env_utils env) (psk_id rk) True)) (\<lambda>rawId'.
                    resolve (Val
                      \<lparr>pkc_id = psk_id rk,
                       rawId = rawId',
                       response = AssertionResponse authenticatorData' clientDataJSON' signature' [],
                       pkc_type = ''public-key''\<rparr>))))))))))))
                | _ \<Rightarrow> reject TypeError))
           | _ \<Rightarrow> reject TypeError)
      | _ \<Rightarrow> resolve Null)"

section \<open>webauthn.ts: creating a credential\<close>

definition processCredentialCreation ::
  "env \<Rightarrow> string \<Rightarrow> publicKeyCredentialCreationOptions \<Rightarrow> string \<Rightarrow> publicKeyCredential js promise" where
  "processCredentialCreation env origin publicKeyCreationOptions pin =
     (if attestation publicKeyCreationOptions \<noteq> Val ''none'' then resolve Null
      else
        await (settled (requestsPSK (creation_extensions publicKeyCreationOptions)))
          (\<lambda>supportRecovery.
        let rpID = or_else (rp_id (rp publicKeyCreationOptions))
                     (getDomainFromOrigin (env_utils env) origin) in
        await (BackupKey_get env) (\<lambda>bckpKey.
        await (settled (base64ToByteArray (env_utils env) (psk_id bckpKey) True)) (\<lambda>credId.
        let encCredId = byteArrayToBase64 (env_utils env) credId True in
        await (reading (keyExists encCredId)) (\<lambda>exists.
        if exists then reject (CredentialExists encCredId)
        else
          await (draw (getCompatibleKey (env_crypto env)
                         (pubKeyCredParams publicKeyCreationOptions))) (\<lambda>compatibleKey.
          await (if supportRecovery
                 then settled (map_sum (\<lambda>e. e) Val (createPSKSetupExtensionOutput env bckpKey))
                 else resolve Null) (\<lambda>extOutput.
          await (settled (generateAuthenticatorData (env_crypto env) compatibleKey rpID 0 credId
                            extOutput)) (\<lambda>authenticatorData'.
          await (settled (generateClientData (env_crypto env) compatibleKey
                   (creation_challenge publicKeyCreationOptions)
                   (JObject [(''origin'', JString origin), (''type'', JString ''webauthn.create'')])))
            (\<lambda>clientData.
          let attestationObject' = CBOR_encodeCanonical (env_cbor env)
                (JObject [(''attStmt'', JObject []), (''authData'', JBytes authenticatorData'),
                          (''fmt'', JString ''none'')]) in
          await (saveKey env encCredId (ck_privateKey compatibleKey) pin) (\<lambda>_.
          await (settled (btoa (env_encoding env) clientData)) (\<lambda>encoded.
          await (settled (base64ToByteArray (env_utils env) encoded False)) (\<lambda>clientDataJSON'.
          resolve (Val
            \<lparr>pkc_id = encCredId,
             rawId = credId,
             response = AttestationResponse attestationObject' clientDataJSON',
             pkc_type = ''public-key''\<rparr>)))))))))))))"

section \<open>webauthn.ts: answering a request\<close>

text \<open>
  \<^verbatim>\<open>fetchKey(encCredId, pin).catch((_) => null)\<close>: a rejection becomes \<^verbatim>\<open>null\<close>; a
  promise that never settles is not caught.
\<close>

definition catch_null :: "error + 'a \<Rightarrow> error + 'a js" where
  "catch_null r =
     (case r of
        Inr v \<Rightarrow> Inr (Val v)
      | Inl Unsettled \<Rightarrow> Inl Unsettled
      | Inl _ \<Rightarrow> Inr Null)"

text \<open>
  The loop over \<^verbatim>\<open>allowCredentials\<close>. It leaves with the first key that is fetched,
  together with the \<open>credId\<close> and \<open>encCredId\<close> of that round; \<open>None\<close> is the loop running
  to its end with no key.
\<close>

fun scanCredentials ::
  "env \<Rightarrow> string \<Rightarrow> chrome \<Rightarrow> publicKeyCredentialDescriptor list
     \<Rightarrow> error + (cryptoKey \<times> bytes \<times> string) option" where
  "scanCredentials env pin st [] = Inr None"
| "scanCredentials env pin st (requestedCredential # rest) =
     (let credId = descriptor_id requestedCredential;
          encCredId = byteArrayToBase64 (env_utils env) credId True
      in case catch_null (fetchKey env encCredId pin st) of
           Inl e \<Rightarrow> Inl e
         | Inr (Val key) \<Rightarrow> Inr (Some (key, credId, encCredId))
         | Inr _ \<Rightarrow> scanCredentials env pin st rest)"

definition processCredentialRequest ::
  "env \<Rightarrow> string \<Rightarrow> publicKeyCredentialRequestOptions \<Rightarrow> string \<Rightarrow> publicKeyCredential js promise" where
  "processCredentialRequest env origin publicKeyRequestOptions pin =
     (case allowCredentials publicKeyRequestOptions of
        Val allow \<Rightarrow>
          await (settled (requestsPSK (request_extensions publicKeyRequestOptions)))
            (\<lambda>recovery.
          if recovery then recover env origin publicKeyRequestOptions pin
          else
            await (reading (\<lambda>st. scanCredentials env pin st allow)) (\<lambda>found.
            case found of
              None \<Rightarrow> reject (CredentialNotFound (map descriptor_id allow))
            | Some (key, credId, encCredId) \<Rightarrow>
                (let rpID = or_else (rpId publicKeyRequestOptions)
                              (getDomainFromOrigin (env_utils env) origin) in
                 await (settled (getCompatibleKeyFromCryptoKey (env_crypto env) key))
                   (\<lambda>compatibleKey.
                 await (settled (generateClientData (env_crypto env) compatibleKey
                          (request_challenge publicKeyRequestOptions)
                          (JObject [(''origin'', JString origin),
                                    (''tokenBinding'',
                                       JObject [(''status'', JString ''not-supported'')]),
                                    (''type'', JString ''webauthn.get'')]))) (\<lambda>clientData.
                 await (settled (btoa (env_encoding env) clientData)) (\<lambda>encoded.
                 await (settled (base64ToByteArray (env_utils env) encoded False))
                   (\<lambda>clientDataJSON'.
                 await (settled (digest (env_subtle env) ''SHA-256'' clientDataJSON'))
                   (\<lambda>clientDataHash.
                 await (settled (generateAuthenticatorData (env_crypto env) compatibleKey rpID 0
                                   [] Null)) (\<lambda>authenticatorData'.
                 let concatData = authenticatorData' @ clientDataHash in
                 await (draw (sign (env_crypto env) compatibleKey concatData)) (\<lambda>signature'.
                 resolve (Val
                   \<lparr>pkc_id = encCredId,
                    rawId = credId,
                    response =
                      AssertionResponse authenticatorData' clientDataJSON' signature' [],
                    pkc_type = ''public-key''\<rparr>)))))))))))
      | _ \<Rightarrow> resolve Null)"

section \<open>The first version of the backup pool (recovery.ts)\<close>

text \<open>
  Here the pool is stored as it was loaded, a list of \<^verbatim>\<open>{key, id}\<close> with the JSON web
  key under \<^verbatim>\<open>key\<close>, and no key is parsed: the functions read and write the array
  under the identifier, whatever its items are. The functions share their names with
  later ones, so they carry the name of their file. \<open>identifier\<close> defaults to
  \<^verbatim>\<open>"backup"\<close>.
\<close>

definition recovery_storeBackupKeys :: "string \<Rightarrow> syncItem list \<Rightarrow> unit promise" where
  "recovery_storeBackupKeys identifier backupKeys st =
     (case lastError st of
        Some e \<Rightarrow> (Inl (LastError e), st)
      | None \<Rightarrow> (Inr (), st\<lparr>storage_sync := (storage_sync st)(identifier \<mapsto> backupKeys)\<rparr>))"

definition recovery_fetchBackupKeys :: "string \<Rightarrow> chrome \<Rightarrow> error + syncItem list" where
  "recovery_fetchBackupKeys identifier st =
     (case lastError st of
        Some e \<Rightarrow> Inl (LastError e)
      | None \<Rightarrow>
          (case storage_sync st identifier of
             None \<Rightarrow> Inl Unsettled
           | Some bckpKeys \<Rightarrow> Inr bckpKeys))"

text \<open>\<^verbatim>\<open>arr.pop()\<close>: the last element and the array without it; \<^verbatim>\<open>undefined\<close> on \<open>[]\<close>.\<close>

definition array_pop :: "'a list \<Rightarrow> 'a js \<times> 'a list" where
  "array_pop xs = (if xs = [] then (Undefined, []) else (Val (last xs), butlast xs))"

definition recovery_popBackupKey :: "string \<Rightarrow> syncItem js promise" where
  "recovery_popBackupKey identifier =
     await (reading (recovery_fetchBackupKeys identifier)) (\<lambda>bckpKeys.
       let (key, bckpKeys) = array_pop bckpKeys in
       await (recovery_storeBackupKeys identifier bckpKeys) (\<lambda>_.
         resolve key))"

section \<open>Notions used to state the properties of the request flows\<close>

text \<open>What one round of the loop over \<^verbatim>\<open>allowCredentials\<close> fetches for a descriptor.\<close>

definition fetched :: "env \<Rightarrow> string \<Rightarrow> chrome \<Rightarrow> publicKeyCredentialDescriptor \<Rightarrow> error + cryptoKey" where
  "fetched env pin st requestedCredential =
     fetchKey env (byteArrayToBase64 (env_utils env) (descriptor_id requestedCredential) True) pin st"

section \<open>Notions used to state the properties of the recovery flow\<close>

text \<open>
  The rest of \<open>recover\<close> once the recovery options are fetched, as a function of the
  options (\<open>recover_unfold\<close> below puts the two halves together).
\<close>

definition recover_rest ::
  "env \<Rightarrow> publicKeyCredentialRequestOptions \<Rightarrow> string \<Rightarrow> recoveryOptions
     \<Rightarrow> publicKeyCredential js promise" where
  "recover_rest env publicKeyRequestOptions pin recOps =
     (let origin = ''http://localhost:9005'' in
      case recoveryKey recOps of
        Val rk \<Rightarrow>
          await (settled (getCompatibleKeyFromCryptoKey (env_crypto env) (psk_key rk)))
            (\<lambda>rkPrv.
          case opt_delegation recOps of
            KeyItem _ \<Rightarrow> reject DataError
          | DelegationItem del \<Rightarrow>
          await (settled (parseJWK (env_subtle env) (replacementKey del))) (\<lambda>rkPubRaw.
          await (settled (getCompatibleKeyFromCryptoKey (env_crypto env) rkPubRaw))
            (\<lambda>rkPub.
          await (saveKey env (psk_id rk) (ck_privateKey rkPrv) pin) (\<lambda>_.
          await (settled (generateClientData (env_crypto env) rkPrv
                   (request_challenge publicKeyRequestOptions)
                   (JObject [(''origin'', JString origin),
                             (''tokenBinding'',
                                JObject [(''status'', JString ''not-supported'')]),
                             (''type'', JString ''webauthn.get'')]))) (\<lambda>clientData.
          await (settled (btoa (env_encoding env) clientData)) (\<lambda>encoded.
          await (settled (base64ToByteArray (env_utils env) encoded False))
            (\<lambda>clientDataJSON'.
          await (settled (digest (env_subtle env) ''SHA-256'' clientDataJSON'))
            (\<lambda>clientDataHash.
          let rpID = or_else (rpId publicKeyRequestOptions)
                       (getDomainFromOrigin (env_utils env) origin) in
          await (settled (generateAuthenticatorData (env_crypto env) rkPrv rpID 0 [] Null))
            (\<lambda>authenticatorData'.
          let concatData = authenticatorData' @ clientDataHash in
          await (draw (sign (env_crypto env) rkPrv concatData)) (\<lambda>signature'.
          await (settled (base64ToByteArray (env_utils env) (psk_id rk) True)) (\<lambda>rawId'.
          resolve (Val
            \<lparr>pkc_id = psk_id rk,
             rawId = rawId',
             response = AssertionResponse authenticatorData' clientDataJSON' signature' [],
             pkc_type = ''public-key''\<rparr>))))))))))))
      | _ \<Rightarrow> reject TypeError)"





section \<open>Notions used to state the properties of the key pools\<close>

text \<open>
  A pool is stored as JSON web keys and fetched as parsed keys. \<open>keys_reimport\<close> says
  that each key of a list exports to a JSON web key that parses back to it, so that
  storing the list and fetching it again gives the list. \<open>pops n\<close> is \<open>n\<close> calls of
  \<open>popPSKKey\<close> in a row, up to the first that fails, with the keys returned.
\<close>

definition keys_reimport :: "subtle \<Rightarrow> pskKey list \<Rightarrow> bool" where
  "keys_reimport w ks \<longleftrightarrow>
     (\<forall>k \<in> set ks. \<exists>jwk. exportKey w ''jwk'' (psk_key k) = Inr jwk \<and>
                          parseJWK w jwk = Inr (psk_key k))"

fun pops :: "subtle \<Rightarrow> string \<Rightarrow> nat \<Rightarrow> chrome \<Rightarrow> pskKey list \<times> chrome" where
  "pops w identifier 0 st = ([], st)"
| "pops w identifier (Suc n) st =
     (case popPSKKey w identifier st of
        (Inl e, st') \<Rightarrow> ([], st')
      | (Inr key, st') \<Rightarrow>
          (case pops w identifier n st' of (keys, st'') \<Rightarrow> (key # keys, st'')))"

section \<open>Inputs on which the definitions are run\<close>

text \<open>The constants and stores used to run the definitions on concrete inputs.\<close>

definition example_constants :: constants where
  "example_constants =
     \<lparr>PIN = ''0000'', saltLength = 2, ivLength = 3, keyExportFormat = ''jwk'',
      BACKUP_KEY = ''backup_key'', BD_ENDPOINT = ''bd_endpoint'',
      DEFAULT_BD_ENDPOINT = ''http://localhost:8005''\<rparr>"

definition empty_chrome :: chrome where
  "empty_chrome =
     \<lparr>lastError = None, storage_local = Map.empty, storage_sync = Map.empty,
      sync_wrapped = Map.empty, random = (\<lambda>i. word_of_nat i)\<rparr>"

text \<open>
  Bytes and characters, one to one: the stand-in for UTF-8 and for base64.
\<close>

definition bytes_of :: "string \<Rightarrow> bytes" where
  "bytes_of s = map (\<lambda>c. word_of_nat (of_char c)) s"

definition text_of :: "bytes \<Rightarrow> string" where
  "text_of b = map (\<lambda>b. char_of (unat b)) b"

text \<open>
  Stand-ins for the browser's functions, small enough to run and to satisfy the
  assumptions. They keep three rules of WebCrypto. \<^verbatim>\<open>importKey\<close> refuses a private or a
  secret key with no usage, with a \<open>SyntaxError\<close>; a JSON web key with a member \<^verbatim>\<open>d\<close>
  is a private key, one with \<^verbatim>\<open>x\<close> and no \<^verbatim>\<open>d\<close> a public key, and the member is the
  key's material as a text. PBKDF2 with HMAC uses the
  password as the HMAC key, and HMAC fills a key of at most 64 bytes (the block of
  SHA-256) with zero bytes up to the block, and hashes a longer key first: the "derived"
  key is that block followed by the salt. Signing needs a private key with the usage
  \<^verbatim>\<open>sign\<close>. A wrapped key carries the wrapping key's material before the key's own; the
  base64 codec maps bytes to characters one to one.
\<close>

fun keyType_byte :: "keyType \<Rightarrow> byte" where
  "keyType_byte Public = 0"
| "keyType_byte Private = 1"
| "keyType_byte Secret = 2"

definition byte_keyType :: "byte \<Rightarrow> keyType" where
  "byte_keyType b = (if b = 0 then Public else if b = 1 then Private else Secret)"

definition toy_digest :: "bytes \<Rightarrow> bytes" where
  "toy_digest data = take 4 (data @ [0, 0, 0, 0])"

definition hmac_key :: "bytes \<Rightarrow> bytes" where
  "hmac_key password =
     (let k = (if length password \<le> 64 then password else toy_digest password)
      in k @ replicate (64 - length k) 0)"

definition toy_importKey ::
  "string \<Rightarrow> keyData \<Rightarrow> jsvalue \<Rightarrow> bool \<Rightarrow> string list \<Rightarrow> error + cryptoKey" where
  "toy_importKey format keyData alg ex us =
     (case keyData of
        Raw b \<Rightarrow>
          (if us = [] then Inl SyntaxError
           else Inr \<lparr>key_type = Secret, extractable = ex, algorithm = alg, usages = us,
                     handle = b\<rparr>)
      | Jwk j \<Rightarrow>
          (case property j ''d'' of
             Val (JString s) \<Rightarrow>
               (if us = [] then Inl SyntaxError
                else Inr \<lparr>key_type = Private, extractable = ex, algorithm = alg, usages = us,
                          handle = bytes_of s\<rparr>)
           | _ \<Rightarrow>
               (case property j ''x'' of
                  Val (JString s) \<Rightarrow>
                    Inr \<lparr>key_type = Public, extractable = ex, algorithm = alg, usages = us,
                         handle = bytes_of s\<rparr>
                | _ \<Rightarrow> Inl DataError)))"

fun jwk_member :: "keyType \<Rightarrow> string" where
  "jwk_member Public = ''x''"
| "jwk_member Private = ''d''"
| "jwk_member Secret = ''k''"

definition toy_exportKey :: "string \<Rightarrow> cryptoKey \<Rightarrow> error + jsonWebKey" where
  "toy_exportKey format k =
     (if extractable k
      then Inr (JObject [(jwk_member (key_type k), JString (text_of (handle k)))])
      else Inl InvalidAccessError)"

definition toy_deriveKey ::
  "jsvalue \<Rightarrow> cryptoKey \<Rightarrow> jsvalue \<Rightarrow> bool \<Rightarrow> string list \<Rightarrow> error + cryptoKey" where
  "toy_deriveKey params baseKey derived ex us =
     (case property params ''salt'' of
        Val (JBytes salt) \<Rightarrow>
          Inr \<lparr>key_type = Secret, extractable = ex, algorithm = derived, usages = us,
               handle = hmac_key (handle baseKey) @ salt\<rparr>
      | _ \<Rightarrow> Inl TypeError)"

definition toy_wrapKey :: "string \<Rightarrow> cryptoKey \<Rightarrow> cryptoKey \<Rightarrow> jsvalue \<Rightarrow> error + bytes" where
  "toy_wrapKey format k wrappingKey alg =
     (if \<not> extractable k then Inl InvalidAccessError
      else Inr (replicate (length (handle wrappingKey)) 1 @ [0] @ handle wrappingKey
                @ [keyType_byte (key_type k)] @ handle k))"

definition toy_unwrapKey ::
  "string \<Rightarrow> bytes \<Rightarrow> cryptoKey \<Rightarrow> jsvalue \<Rightarrow> jsvalue \<Rightarrow> bool \<Rightarrow> string list \<Rightarrow> error + cryptoKey" where
  "toy_unwrapKey format wrapped unwrappingKey alg unwrappedAlg ex us =
     (let n = length (takeWhile (\<lambda>b. b = 1) wrapped);
          body = drop (Suc n) wrapped
      in if n = length (handle unwrappingKey) \<and> take n body = handle unwrappingKey
            \<and> n < length body
         then Inr \<lparr>key_type = byte_keyType (body ! n), extractable = ex,
                   algorithm = unwrappedAlg, usages = us, handle = drop (Suc n) body\<rparr>
         else Inl OperationError)"

definition toy_subtle :: subtle where
  "toy_subtle =
     \<lparr>importKey = toy_importKey, exportKey = toy_exportKey, deriveKey = toy_deriveKey,
      wrapKey = toy_wrapKey, unwrapKey = toy_unwrapKey,
      digest = (\<lambda>alg data. Inr (toy_digest data)),
      verify = (\<lambda>alg k sig data. Inr (sig = handle k @ data))\<rparr>"

definition ECDSA_P256 :: jsvalue where
  "ECDSA_P256 = JObject [(''name'', JString ''ECDSA''), (''namedCurve'', JString ''P-256'')]"

definition ECDSA_P256_text :: string where
  "ECDSA_P256_text = ''{name:ECDSA,namedCurve:P-256}''"

definition toy_encoding :: encoding where
  "toy_encoding =
     \<lparr>TextEncoder_encode = bytes_of,
      TextDecoder_decode = text_of,
      JSON_stringify = (\<lambda>v. if v = ECDSA_P256 then ECDSA_P256_text else ''null''),
      JSON_parse = (\<lambda>s. if s = ECDSA_P256_text then Inr ECDSA_P256 else Inl SyntaxError),
      btoa = (\<lambda>s. Inr s)\<rparr>"

definition toy_utils :: utils where
  "toy_utils =
     \<lparr>base64ToByteArray = (\<lambda>s url. Inr (bytes_of s)),
      byteArrayToBase64 = (\<lambda>b url. text_of b),
      getDomainFromOrigin = (\<lambda>origin.
        takeWhile (\<lambda>c. c \<noteq> CHR '':'') (drop 2 (dropWhile (\<lambda>c. c \<noteq> CHR ''/'') origin)))\<rparr>"

definition toy_crypto :: cryptoModule where
  "toy_crypto =
     \<lparr>getCompatibleKey = (\<lambda>params rnd.
        case find (\<lambda>p. param_alg p = - 7) params of
          None \<Rightarrow> (Inl (ModuleError ''no compatible key''), rnd)
        | Some p \<Rightarrow>
            (Inr \<lparr>ck_algorithm = param_alg p,
                  ck_privateKey = \<lparr>key_type = Private, extractable = True, algorithm = ECDSA_P256,
                                   usages = [''sign''], handle = [rnd 0, rnd 1]\<rparr>,
                  ck_publicKey = Val \<lparr>key_type = Public, extractable = True,
                                      algorithm = ECDSA_P256, usages = [''verify''],
                                      handle = [rnd 0, rnd 1]\<rparr>\<rparr>,
             \<lambda>i. rnd (i + 2))),
      getCompatibleKeyFromCryptoKey = (\<lambda>k.
        Inr \<lparr>ck_algorithm = - 7, ck_privateKey = k, ck_publicKey = Null\<rparr>),
      generateAuthenticatorData = (\<lambda>k rpID counter credId ext.
        Inr (bytes_of rpID @ [word_of_nat counter] @ credId
             @ (case ext of Val e \<Rightarrow> e | _ \<Rightarrow> []))),
      generateClientData = (\<lambda>k challenge extras.
        Inr ((case property extras ''origin'' of Val (JString origin) \<Rightarrow> origin | _ \<Rightarrow> [])
             @ '' '' @ text_of challenge)),
      sign = (\<lambda>k data rnd.
        if key_type (ck_privateKey k) = Private \<and> ''sign'' \<in> set (usages (ck_privateKey k))
        then (Inr (handle (ck_privateKey k) @ data), rnd)
        else (Inl InvalidAccessError, rnd)),
      toCOSE = (\<lambda>k key. JObject [(''k'', JBytes (handle key))])\<rparr>"

definition toy_cbor_encode :: "jsvalue \<Rightarrow> bytes" where
  "toy_cbor_encode v =
     (case property v ''authData'' of
        Val (JBytes b) \<Rightarrow> b
      | _ \<Rightarrow>
          (case property v ''psk'' of
             Val (JBytes b) \<Rightarrow> b
           | _ \<Rightarrow> (case property v ''k'' of Val (JBytes b) \<Rightarrow> b | _ \<Rightarrow> [])))"

definition toy_cbor :: cbor where
  "toy_cbor = \<lparr>CBOR_encodeCanonical = toy_cbor_encode, CBOR_encode = toy_cbor_encode\<rparr>"

definition example_env :: env where
  "example_env =
     \<lparr>env_subtle = toy_subtle, env_encoding = toy_encoding, env_utils = toy_utils,
      env_constants = example_constants, env_crypto = toy_crypto, env_cbor = toy_cbor\<rparr>"

definition example_key :: cryptoKey where
  "example_key =
     \<lparr>key_type = Private, extractable = True, algorithm = ECDSA_P256, usages = [''sign''],
      handle = [7, 7, 7]\<rparr>"

definition example_source :: publicKeyCredentialSource where
  "example_source =
     \<lparr>cred_id = ''cred-1'', privateKey = example_key, cred_rpId = ''example.com'',
      userHandle = Null, cred_type = ''public-key''\<rparr>"

definition example_material :: bytes where
  "example_material = hmac_key (bytes_of ''0000'') @ [0, 1]"

definition example_wrapped :: bytes where
  "example_wrapped =
     replicate (length example_material) 1 @ [0] @ example_material @ [1] @ [7, 7, 7]"

definition example_json :: credentialJSON where
  "example_json =
     \<lparr>json_id = ''cred-1'',
      json_privateKey = byteArrayToBase64 toy_utils
        ([2, 3, 29] @ [0, 1] @ [2, 3, 4] @ descriptor toy_encoding example_key @ example_wrapped)
        False,
      json_rpId = ''example.com'', json_userHandle = Null, json_type = ''public-key''\<rparr>"

text \<open>The payload of \<open>example_json\<close> with the third header byte one less.\<close>

definition altered_json :: credentialJSON where
  "altered_json =
     example_json\<lparr>json_privateKey := byteArrayToBase64 toy_utils
        ([2, 3, 28] @ [0, 1] @ [2, 3, 4] @ descriptor toy_encoding example_key @ example_wrapped)
        False\<rparr>"

definition delegation_A :: delegation where
  "delegation_A =
     \<lparr>signature = ''c2lnQQ'', backupId = ''A'', replacementId = ''RA'',
      replacementKey = JObject [(''kid'', JString ''RA''), (''x'', JString ''ra'')]\<rparr>"

definition delegation_B :: delegation where
  "delegation_B =
     \<lparr>signature = ''c2lnQg'', backupId = ''B'', replacementId = ''RB'',
      replacementKey = JObject [(''kid'', JString ''RB''), (''x'', JString ''rb'')]\<rparr>"

definition chrome_AB :: chrome where
  "chrome_AB =
     empty_chrome\<lparr>storage_sync :=
       [''delegation'' \<mapsto> [DelegationItem delegation_A, DelegationItem delegation_B]]\<rparr>"

definition chrome_empty_pool :: chrome where
  "chrome_empty_pool = empty_chrome\<lparr>storage_sync := [''backup'' \<mapsto> []]\<rparr>"

definition descriptor_of :: "string \<Rightarrow> publicKeyCredentialDescriptor" where
  "descriptor_of s =
     \<lparr>descriptor_id = bytes_of s, descriptor_type = ''public-key''\<rparr>"

definition chrome_store :: chrome where
  "chrome_store = empty_chrome\<lparr>sync_wrapped := [''cred-1'' \<mapsto> json_privateKey example_json]\<rparr>"

definition example_request :: publicKeyCredentialRequestOptions where
  "example_request =
     \<lparr>allowCredentials =
        Val [descriptor_of ''nope'', descriptor_of ''cred-1'', descriptor_of ''later''],
      request_extensions = Undefined, rpId = Undefined, request_challenge = [5, 6]\<rparr>"

text \<open>The backup pool holds public keys, the recovery pool the keys of this device.\<close>

definition backup_entry :: "string \<Rightarrow> exportKey" where
  "backup_entry s =
     \<lparr>export_key = JObject [(''kid'', JString s), (''x'', JString ''bk'')], export_id = s\<rparr>"

definition backup_key :: "string \<Rightarrow> pskKey" where
  "backup_key s =
     \<lparr>psk_key = \<lparr>key_type = Public, extractable = True, algorithm = ECDSA_P256, usages = [],
                  handle = bytes_of ''bk''\<rparr>,
      psk_id = s\<rparr>"

definition chrome_pool :: chrome where
  "chrome_pool = empty_chrome\<lparr>storage_sync := [''backup'' \<mapsto> [KeyItem (backup_entry ''BK1'')]]\<rparr>"

definition chrome_duplicate :: chrome where
  "chrome_duplicate =
     chrome_store\<lparr>storage_sync := [''backup'' \<mapsto> [KeyItem (backup_entry ''cred-1'')]]\<rparr>"

definition example_creation :: publicKeyCredentialCreationOptions where
  "example_creation =
     \<lparr>attestation = Val ''none'', creation_extensions = Undefined,
      rp = \<lparr>rp_id = Undefined, rp_name = ''Example''\<rparr>,
      creation_challenge = [5, 6],
      pubKeyCredParams = [\<lparr>param_alg = - 257, param_type = ''public-key''\<rparr>,
                          \<lparr>param_alg = - 7, param_type = ''public-key''\<rparr>]\<rparr>"

definition example_fresh :: compatibleKey where
  "example_fresh =
     \<lparr>ck_algorithm = - 7,
      ck_privateKey = \<lparr>key_type = Private, extractable = True, algorithm = ECDSA_P256,
                       usages = [''sign''], handle = [0, 1]\<rparr>,
      ck_publicKey = Val \<lparr>key_type = Public, extractable = True, algorithm = ECDSA_P256,
                          usages = [''verify''], handle = [0, 1]\<rparr>\<rparr>"

definition example_credential :: publicKeyCredential where
  "example_credential =
     \<lparr>pkc_id = ''BK1'',
      rawId = bytes_of ''BK1'',
      response = AttestationResponse
        (bytes_of ''rp.example'' @ [0] @ bytes_of ''BK1'')
        (bytes_of (''https://rp.example'' @ '' '' @ text_of [5, 6])),
      pkc_type = ''public-key''\<rparr>"

definition psk_creation :: publicKeyCredentialCreationOptions where
  "psk_creation = example_creation\<lparr>creation_extensions := Val [(''psk'', JBool True)]\<rparr>"

definition psk_credential :: publicKeyCredential where
  "psk_credential =
     \<lparr>pkc_id = ''BK1'',
      rawId = bytes_of ''BK1'',
      response = AttestationResponse
        (bytes_of ''rp.example'' @ [0] @ bytes_of ''BK1'' @ bytes_of ''bk'')
        (bytes_of (''https://rp.example'' @ '' '' @ text_of [5, 6])),
      pkc_type = ''public-key''\<rparr>"

text \<open>
  Two stores for the recovery flow, each with the delegation of backup id \<^verbatim>\<open>A\<close> to the
  recovery key \<^verbatim>\<open>RA\<close>. In the first the recovery pool is as \<^verbatim>\<open>createRecoveryKeys\<close>
  writes it, the exported private key; in the second the entry is a public key.
\<close>

definition recovery_entry :: "string \<Rightarrow> exportKey" where
  "recovery_entry member = \<lparr>export_key = JObject [(member, JString ''rk'')], export_id = ''RA''\<rparr>"


definition chrome_recovery_public :: chrome where
  "chrome_recovery_public =
     empty_chrome\<lparr>storage_sync :=
       [''delegation'' \<mapsto> [DelegationItem delegation_A],
        ''recovery'' \<mapsto> [KeyItem (recovery_entry ''x'')]]\<rparr>"

definition recovery_request :: publicKeyCredentialRequestOptions where
  "recovery_request =
     \<lparr>allowCredentials = Val [descriptor_of ''A''],
      request_extensions = Val [(''psk'', JBool True)], rpId = Undefined,
      request_challenge = [5, 6]\<rparr>"



definition recovery_key :: pskKey where
  "recovery_key =
     \<lparr>psk_key = \<lparr>key_type = Public, extractable = True, algorithm = ECDSA_P256, usages = [],
                  handle = bytes_of ''rk''\<rparr>,
      psk_id = ''RA''\<rparr>"

text \<open>What \<open>saveKey\<close> stores for the key of \<open>recovery_key\<close> under the PIN \<^verbatim>\<open>0000\<close>.\<close>

definition recovery_payload :: string where
  "recovery_payload =
     byteArrayToBase64 toy_utils
       ([2, 3, 29] @ [0, 1] @ [2, 3, 4] @ descriptor toy_encoding (psk_key recovery_key)
        @ replicate (length example_material) 1 @ [0] @ example_material @ [0] @ bytes_of ''rk'')
       False"

definition chrome_recovered :: chrome where
  "chrome_recovered =
     chrome_recovery_public\<lparr>random := (\<lambda>i. word_of_nat (i + 3 + 2)),
       sync_wrapped := [''RA'' \<mapsto> recovery_payload]\<rparr>"

section \<open>The endpoint slot: what is read back\<close>

lemma getBDEndpoint_unset:
  "lastError st = None \<Longrightarrow> storage_local st (BD_ENDPOINT c) = None \<Longrightarrow>
   getBDEndpoint c st = Inr (DEFAULT_BD_ENDPOINT c)"
  by (simp add: getBDEndpoint_def storage_get_default_def)

lemma setBDEndpoint_stores:
  "lastError st = None \<Longrightarrow>
   setBDEndpoint c e st = (Inr (), st') \<Longrightarrow> storage_local st' (BD_ENDPOINT c) = Some e"
  by (auto simp: setBDEndpoint_def)

text \<open>
  C10 (the code departs from the claim). The claim: with nothing stored, \<open>getBDEndpoint\<close>
  returns the default endpoint, and after a successful \<open>setBDEndpoint e\<close> it returns \<open>e\<close>.
  The first half holds (\<open>getBDEndpoint_unset\<close>). The second does not: the callback of
  \<open>getBDEndpoint\<close> asks the store for \<open>BD_ENDPOINT\<close> and then reads the property
  \<open>BACKUP_KEY\<close> of the answer, which the answer does not have. Whenever the two constants
  differ, the value just stored is ignored and the default endpoint is returned.
\<close>

theorem getBDEndpoint_after_set_is_default:
  assumes "BACKUP_KEY c \<noteq> BD_ENDPOINT c" and "lastError st = None"
  shows "fst (setBDEndpoint c e st) = Inr () \<and>
         getBDEndpoint c (snd (setBDEndpoint c e st)) = Inr (DEFAULT_BD_ENDPOINT c)"
  using assms by (simp add: getBDEndpoint_def setBDEndpoint_def storage_get_default_def)

theorem getBDEndpoint_after_set_is_default_witness:
  "BACKUP_KEY example_constants \<noteq> BD_ENDPOINT example_constants \<and>
   lastError empty_chrome = None \<and>
   fst (setBDEndpoint example_constants ''https://bd.example'' empty_chrome) = Inr () \<and>
   getBDEndpoint example_constants
     (snd (setBDEndpoint example_constants ''https://bd.example'' empty_chrome))
     = Inr ''http://localhost:8005'' \<and>
   ''http://localhost:8005'' \<noteq> ''https://bd.example''"
  using getBDEndpoint_after_set_is_default
    [of example_constants empty_chrome "''https://bd.example''"]
  by (simp add: example_constants_def empty_chrome_def)

section \<open>The wrapped payload\<close>

lemma export_resolves:
  assumes "PublicKeyCredentialSource_export w enc u c this st = (Inr json, st')"
  shows "\<exists>wk ct. getWrappingKey w enc (PIN c) (drawn_salt c st) = Inr wk \<and>
           wrapKey w (keyExportFormat c) (privateKey this) wk (AesGcmParams (drawn_iv c st)) = Inr ct \<and>
           json_privateKey json = byteArrayToBase64 u
              (Uint8Array_of [saltLength c, ivLength c, length (descriptor enc (privateKey this))]
                @ drawn_salt c st @ drawn_iv c st @ descriptor enc (privateKey this) @ ct) False \<and>
           json_id json = cred_id this \<and> json_rpId json = cred_rpId this \<and>
           json_userHandle json = userHandle this \<and> json_type json = cred_type this"
  using assms
  by (auto simp: PublicKeyCredentialSource_export_def await_def getRandomValues_def settled_def
      resolve_def drawn_salt_def drawn_iv_def descriptor_def concatenate_def Let_def
      split: if_splits sum.splits)

lemma drop_3_plus: "drop (3 + n) (a # b # c # xs) = drop n xs"
  by (simp add: numeral_3_eq_3)

lemma import_parses:
  assumes "base64ToByteArray u (json_privateKey json) False =
             Inr (Uint8Array_of [length salt, length iv, length alg] @ salt @ iv @ alg @ ct)"
    and "length salt < 256" and "length iv < 256" and "length alg < 256"
  shows "PublicKeyCredentialSource_import w enc u c json =
           unwrap_segments w enc c json salt iv alg ct"
  using assms
  by (simp add: PublicKeyCredentialSource_import_def Uint8Array_of_def at_index_def
      subarray_def subarray_from_def to_integer_def unat_of_nat Let_def drop_3_plus
      add.assoc unwrap_segments_def cong: sum.case_cong)

lemma export_import_core:
  assumes ex: "fst (PublicKeyCredentialSource_export w enc u c this st) = Inr json"
    and fits: "header_fits enc c (privateKey this)"
    and b64: "base64_inverse u"
  shows "\<exists>wk ct.
    getWrappingKey w enc (PIN c) (drawn_salt c st) = Inr wk \<and>
    wrapKey w (keyExportFormat c) (privateKey this) wk (AesGcmParams (drawn_iv c st)) = Inr ct \<and>
    base64ToByteArray u (json_privateKey json) False =
       Inr (Uint8Array_of [saltLength c, ivLength c, length (descriptor enc (privateKey this))]
            @ drawn_salt c st @ drawn_iv c st @ descriptor enc (privateKey this) @ ct) \<and>
    (\<forall>c'. PublicKeyCredentialSource_import w enc u c' json =
       unwrap_segments w enc c' json (drawn_salt c st) (drawn_iv c st)
         (descriptor enc (privateKey this)) ct) \<and>
    json_id json = cred_id this \<and> json_rpId json = cred_rpId this \<and>
    json_userHandle json = userHandle this"
proof -
  obtain st' where "PublicKeyCredentialSource_export w enc u c this st = (Inr json, st')"
    using ex by (cases "PublicKeyCredentialSource_export w enc u c this st") simp
  from export_resolves [OF this] obtain wk ct where
    wk: "getWrappingKey w enc (PIN c) (drawn_salt c st) = Inr wk"
    and ct: "wrapKey w (keyExportFormat c) (privateKey this) wk (AesGcmParams (drawn_iv c st)) = Inr ct"
    and pl: "json_privateKey json = byteArrayToBase64 u
              (Uint8Array_of [saltLength c, ivLength c, length (descriptor enc (privateKey this))]
                @ drawn_salt c st @ drawn_iv c st @ descriptor enc (privateKey this) @ ct) False"
    and flds: "json_id json = cred_id this" "json_rpId json = cred_rpId this"
      "json_userHandle json = userHandle this"
    by blast
  have len: "length (drawn_salt c st) = saltLength c" "length (drawn_iv c st) = ivLength c"
    by (simp_all add: drawn_salt_def drawn_iv_def)
  from b64 pl have dec: "base64ToByteArray u (json_privateKey json) False =
       Inr (Uint8Array_of [saltLength c, ivLength c, length (descriptor enc (privateKey this))]
            @ drawn_salt c st @ drawn_iv c st @ descriptor enc (privateKey this) @ ct)"
    by (simp add: base64_inverse_def)
  have "PublicKeyCredentialSource_import w enc u c' json =
       unwrap_segments w enc c' json (drawn_salt c st) (drawn_iv c st)
         (descriptor enc (privateKey this)) ct" for c'
    using import_parses [of u json "drawn_salt c st" "drawn_iv c st"
        "descriptor enc (privateKey this)" ct w enc c'] dec fits len
    by (simp add: header_fits_def)
  with wk ct dec flds show ?thesis by blast
qed

lemma import_of_export:
  assumes "fst (PublicKeyCredentialSource_export w enc u c this st) = Inr json"
    and "header_fits enc c (privateKey this)"
    and "base64_inverse u"
    and "descriptor_parses enc (privateKey this)"
    and "unwrap_inverts_wrap w (keyExportFormat c)"
    and "''sign'' \<in> set (usages (privateKey this))"
  shows "PublicKeyCredentialSource_import w enc u c json =
           Inr (new_PublicKeyCredentialSource (cred_id this)
                  ((privateKey this)\<lparr>extractable := True, usages := [''sign'']\<rparr>)
                  (cred_rpId this) (userHandle this))"
proof -
  from export_import_core [OF assms(1-3)] obtain wk ct where
    wk: "getWrappingKey w enc (PIN c) (drawn_salt c st) = Inr wk"
    and ct: "wrapKey w (keyExportFormat c) (privateKey this) wk (AesGcmParams (drawn_iv c st)) = Inr ct"
    and imp: "PublicKeyCredentialSource_import w enc u c json =
       unwrap_segments w enc c json (drawn_salt c st) (drawn_iv c st)
         (descriptor enc (privateKey this)) ct"
    and flds: "json_id json = cred_id this" "json_rpId json = cred_rpId this"
      "json_userHandle json = userHandle this"
    by blast
  from assms(5,6) ct have
    "unwrapKey w (keyExportFormat c) ct wk (AesGcmParams (drawn_iv c st))
       (algorithm (privateKey this)) True [''sign'']
     = Inr ((privateKey this)\<lparr>extractable := True, usages := [''sign'']\<rparr>)"
    by (simp add: unwrap_inverts_wrap_def)
  with imp wk assms(4) flds show ?thesis
    by (simp add: descriptor_parses_def unwrap_segments_def)
qed

lemma byte_char_inverse: "word_of_nat (of_char (char_of (unat (b::byte)))) = b"
  by (simp add: take_bit_eq_mod [symmetric] take_bit_nat_eq_self_iff
      unsigned_less [of b, simplified])

lemma char_byte_inverse: "char_of (unat (word_of_nat (of_char c) :: byte)) = c"
  by (simp add: unat_of_nat)

lemma byte_mod: "word_of_nat (unat (b::byte) mod 256) = b"
  using byte_char_inverse [of b] by simp

lemma bytes_of_text_of: "bytes_of (text_of b) = b"
  by (simp add: bytes_of_def text_of_def byte_mod o_def)

lemma length_bytes_of: "length (bytes_of s) = length s"
  by (simp add: bytes_of_def)

lemma text_of_bytes_of: "text_of (bytes_of s) = s"
  by (simp add: bytes_of_def text_of_def char_byte_inverse o_def)

lemma toy_base64_inverse: "base64_inverse toy_utils"
  by (simp add: base64_inverse_def toy_utils_def bytes_of_text_of)

lemma byte_keyType_inverse: "byte_keyType (keyType_byte t) = t"
  by (cases t) (simp_all add: byte_keyType_def)

lemma takeWhile_ones:
  "takeWhile (\<lambda>b. b = (1::byte)) (replicate n 1 @ 0 # xs) = replicate n 1"
  by (simp add: takeWhile_append)

lemma toy_unwrap_of_wrap:
  assumes "toy_wrapKey format k wk alg = Inr wrapped"
  shows "toy_unwrapKey format' wrapped other alg' unwrappedAlg ex us =
           (if handle other = handle wk
            then Inr \<lparr>key_type = key_type k, extractable = ex, algorithm = unwrappedAlg,
                      usages = us, handle = handle k\<rparr>
            else Inl OperationError)"
proof -
  from assms have w: "wrapped = replicate (length (handle wk)) 1 @ 0 # handle wk
                @ keyType_byte (key_type k) # handle k"
    by (simp add: toy_wrapKey_def split: if_splits)
  show ?thesis
    by (auto simp: toy_unwrapKey_def w takeWhile_ones Let_def byte_keyType_inverse nth_append)
qed

lemma toy_unwrap_inverts_wrap: "unwrap_inverts_wrap toy_subtle format"
  by (auto simp: unwrap_inverts_wrap_def toy_subtle_def toy_unwrap_of_wrap)

lemma toy_rejects_other_key: "rejects_other_key toy_subtle format"
  by (auto simp: rejects_other_key_def toy_subtle_def toy_unwrap_of_wrap)

lemma toy_getWrappingKey:
  "getWrappingKey toy_subtle toy_encoding pin salt =
     Inr \<lparr>key_type = Secret, extractable = True,
          algorithm = JObject [(''name'', JString ''AES-GCM''), (''length'', JNumber 256)],
          usages = [''wrapKey'', ''unwrapKey''],
          handle = hmac_key (bytes_of pin) @ salt\<rparr>"
  by (simp add: getWrappingKey_def toy_subtle_def toy_encoding_def toy_importKey_def
      toy_deriveKey_def)

lemma hmac_key_short: "length p \<le> 64 \<Longrightarrow> hmac_key p = p @ replicate (64 - length p) 0"
  by (simp add: hmac_key_def)

lemma hmac_key_zero:
  assumes "length p < 64"
  shows "hmac_key (p @ [0]) = hmac_key p"
proof -
  from assms have "replicate (64 - length p) (0::byte) = 0 # replicate (63 - length p) 0"
    by (cases "64 - length p") simp_all
  with assms show ?thesis
    by (simp add: hmac_key_short)
qed

lemma example_header_fits: "header_fits toy_encoding example_constants example_key"
  by (simp add: header_fits_def descriptor_def toy_encoding_def example_constants_def
      example_key_def ECDSA_P256_text_def bytes_of_def)

lemma example_descriptor_parses: "descriptor_parses toy_encoding example_key"
  by (simp add: descriptor_parses_def descriptor_def toy_encoding_def example_key_def
      text_of_bytes_of)

lemma example_source_fits:
  "header_fits toy_encoding example_constants (privateKey example_source)"
  "descriptor_parses toy_encoding (privateKey example_source)"
  "''sign'' \<in> set (usages (privateKey example_source))"
  using example_header_fits example_descriptor_parses
  by (simp_all add: example_source_def) (simp add: example_key_def)

lemma export_value:
  assumes "saltLength c \<le> 65536" and "ivLength c \<le> 65536"
    and "getWrappingKey w enc (PIN c) (drawn_salt c st) = Inr wk"
    and "wrapKey w (keyExportFormat c) (privateKey this) wk (AesGcmParams (drawn_iv c st)) = Inr ct"
  shows "fst (PublicKeyCredentialSource_export w enc u c this st) =
           Inr \<lparr>json_id = cred_id this,
                json_privateKey = byteArrayToBase64 u
                  (Uint8Array_of [saltLength c, ivLength c, length (descriptor enc (privateKey this))]
                   @ drawn_salt c st @ drawn_iv c st @ descriptor enc (privateKey this) @ ct) False,
                json_rpId = cred_rpId this, json_userHandle = userHandle this,
                json_type = cred_type this\<rparr>"
  using assms
  by (simp add: PublicKeyCredentialSource_export_def await_def getRandomValues_def settled_def
      resolve_def drawn_salt_def drawn_iv_def descriptor_def concatenate_def Let_def)

lemma example_draws:
  "drawn_salt example_constants empty_chrome = [0, 1]"
  "drawn_iv example_constants empty_chrome = [2, 3, 4]"
  by (simp_all add: drawn_salt_def drawn_iv_def example_constants_def empty_chrome_def
      upt_rec numeral_2_eq_2 numeral_3_eq_3)

lemma example_export:
  "fst (PublicKeyCredentialSource_export toy_subtle toy_encoding toy_utils example_constants
          example_source empty_chrome) = Inr example_json"
proof -
  have wk: "getWrappingKey toy_subtle toy_encoding (PIN example_constants)
          (drawn_salt example_constants empty_chrome) =
        Inr \<lparr>key_type = Secret, extractable = True,
          algorithm = JObject [(''name'', JString ''AES-GCM''), (''length'', JNumber 256)],
          usages = [''wrapKey'', ''unwrapKey''],
          handle = example_material\<rparr>"
    by (simp add: toy_getWrappingKey example_draws example_material_def)
       (simp add: example_constants_def)
  have ct: "wrapKey toy_subtle (keyExportFormat example_constants) (privateKey example_source)
        \<lparr>key_type = Secret, extractable = True,
          algorithm = JObject [(''name'', JString ''AES-GCM''), (''length'', JNumber 256)],
          usages = [''wrapKey'', ''unwrapKey''],
          handle = example_material\<rparr>
        (AesGcmParams (drawn_iv example_constants empty_chrome)) = Inr example_wrapped"
    by (simp add: toy_subtle_def toy_wrapKey_def example_source_def example_key_def
        example_wrapped_def)
  have len: "length (descriptor toy_encoding example_key) = 29"
    by (simp add: descriptor_def toy_encoding_def example_key_def ECDSA_P256_text_def
        bytes_of_def)
  have "saltLength example_constants \<le> 65536" "ivLength example_constants \<le> 65536"
    by (simp_all add: example_constants_def)
  from export_value [OF this wk ct, where u = toy_utils] show ?thesis
    by (simp add: example_json_def example_draws len example_source_def Uint8Array_of_def)
       (simp add: example_constants_def)
qed

text \<open>
  C5. For a signing key \<open>K\<close> and a PIN \<open>P\<close> (the constant \<open>PIN\<close>, a parameter here):
  when \<^verbatim>\<open>export()\<close> produces a payload, \<^verbatim>\<open>import(json)\<close> under the same PIN returns the
  credential source with \<open>K\<close> again, that is the same material, key type and algorithm,
  extractable and with the single usage \<^verbatim>\<open>sign\<close>; and the payload is three header bytes
  followed by the salt, the IV, the algorithm descriptor and the wrapped key, the header
  bytes being the lengths of the first three. Assumed: the three lengths are below 256,
  base64 decoding inverts encoding, the descriptor of \<open>K\<close> parses back to its algorithm,
  and unwrapping inverts wrapping.
\<close>

theorem export_import_roundtrip:
  assumes "fst (PublicKeyCredentialSource_export w enc u c this st) = Inr json"
    and "header_fits enc c (privateKey this)"
    and "base64_inverse u"
    and "descriptor_parses enc (privateKey this)"
    and "unwrap_inverts_wrap w (keyExportFormat c)"
    and "''sign'' \<in> set (usages (privateKey this))"
  shows "PublicKeyCredentialSource_import w enc u c json =
           Inr (new_PublicKeyCredentialSource (cred_id this)
                  ((privateKey this)\<lparr>extractable := True, usages := [''sign'']\<rparr>)
                  (cred_rpId this) (userHandle this)) \<and>
         (\<exists>payload wrapped.
            base64ToByteArray u (json_privateKey json) False = Inr payload \<and>
            payload = [payload ! 0, payload ! 1, payload ! 2] @ drawn_salt c st @ drawn_iv c st
                        @ descriptor enc (privateKey this) @ wrapped \<and>
            unat (payload ! 0) = length (drawn_salt c st) \<and>
            unat (payload ! 1) = length (drawn_iv c st) \<and>
            unat (payload ! 2) = length (descriptor enc (privateKey this)))"
proof -
  from export_import_core [OF assms(1-3)] obtain ct where
    dec: "base64ToByteArray u (json_privateKey json) False =
       Inr (Uint8Array_of [saltLength c, ivLength c, length (descriptor enc (privateKey this))]
            @ drawn_salt c st @ drawn_iv c st @ descriptor enc (privateKey this) @ ct)"
    by blast
  have len: "length (drawn_salt c st) = saltLength c" "length (drawn_iv c st) = ivLength c"
    by (simp_all add: drawn_salt_def drawn_iv_def)
  from assms(2) have "\<exists>payload wrapped.
            base64ToByteArray u (json_privateKey json) False = Inr payload \<and>
            payload = [payload ! 0, payload ! 1, payload ! 2] @ drawn_salt c st @ drawn_iv c st
                        @ descriptor enc (privateKey this) @ wrapped \<and>
            unat (payload ! 0) = length (drawn_salt c st) \<and>
            unat (payload ! 1) = length (drawn_iv c st) \<and>
            unat (payload ! 2) = length (descriptor enc (privateKey this))"
    by (intro exI [of _ "Uint8Array_of [saltLength c, ivLength c,
            length (descriptor enc (privateKey this))]
            @ drawn_salt c st @ drawn_iv c st @ descriptor enc (privateKey this) @ ct"]
          exI [of _ ct])
       (simp add: dec len Uint8Array_of_def unat_of_nat header_fits_def)
  with import_of_export [OF assms] show ?thesis by blast
qed

theorem export_import_roundtrip_witness:
  "fst (PublicKeyCredentialSource_export toy_subtle toy_encoding toy_utils example_constants
          example_source empty_chrome) = Inr example_json \<and>
   header_fits toy_encoding example_constants (privateKey example_source) \<and>
   base64_inverse toy_utils \<and>
   descriptor_parses toy_encoding (privateKey example_source) \<and>
   unwrap_inverts_wrap toy_subtle (keyExportFormat example_constants) \<and>
   ''sign'' \<in> set (usages (privateKey example_source)) \<and>
   PublicKeyCredentialSource_import toy_subtle toy_encoding toy_utils example_constants
     example_json = Inr example_source"
  using export_import_roundtrip [of toy_subtle toy_encoding toy_utils example_constants
      example_source empty_chrome example_json]
    example_export example_header_fits toy_base64_inverse example_descriptor_parses
    toy_unwrap_inverts_wrap [of "keyExportFormat example_constants"]
  by (simp add: example_source_def example_key_def new_PublicKeyCredentialSource_def)

lemma import_same_wrapping_key:
  assumes "fst (PublicKeyCredentialSource_export w enc u c this st) = Inr json"
    and "header_fits enc c (privateKey this)"
    and "base64_inverse u"
    and "getWrappingKey w enc P2 (drawn_salt c st) = getWrappingKey w enc (PIN c) (drawn_salt c st)"
  shows "PublicKeyCredentialSource_import w enc u (c\<lparr>PIN := P2\<rparr>) json =
         PublicKeyCredentialSource_import w enc u c json"
proof -
  from export_import_core [OF assms(1-3)] obtain ct where
    imp: "\<And>c'. PublicKeyCredentialSource_import w enc u c' json =
       unwrap_segments w enc c' json (drawn_salt c st) (drawn_iv c st)
         (descriptor enc (privateKey this)) ct"
    by blast
  show ?thesis
    by (simp add: imp unwrap_segments_def assms(4) cong: sum.case_cong)
qed

lemma import_other_wrapping_key:
  assumes "fst (PublicKeyCredentialSource_export w enc u c this st) = Inr json"
    and "header_fits enc c (privateKey this)"
    and "base64_inverse u"
    and "descriptor_parses enc (privateKey this)"
    and "getWrappingKey w enc (PIN c) (drawn_salt c st) = Inr wrappingKey"
    and "getWrappingKey w enc P2 (drawn_salt c st) = Inr other"
    and "handle other \<noteq> handle wrappingKey"
    and "rejects_other_key w (keyExportFormat c)"
  shows "PublicKeyCredentialSource_import w enc u (c\<lparr>PIN := P2\<rparr>) json = Inl OperationError"
proof -
  from export_import_core [OF assms(1-3)] assms(5) obtain ct where
    ct: "wrapKey w (keyExportFormat c) (privateKey this) wrappingKey
           (AesGcmParams (drawn_iv c st)) = Inr ct"
    and imp: "PublicKeyCredentialSource_import w enc u (c\<lparr>PIN := P2\<rparr>) json =
       unwrap_segments w enc (c\<lparr>PIN := P2\<rparr>) json (drawn_salt c st) (drawn_iv c st)
         (descriptor enc (privateKey this)) ct"
    by auto
  from assms(7,8) ct have "unwrapKey w (keyExportFormat c) ct other (AesGcmParams (drawn_iv c st))
       (algorithm (privateKey this)) True [''sign''] = Inl OperationError"
    unfolding rejects_other_key_def by blast
  with imp assms(4,6) show ?thesis
    by (simp add: descriptor_parses_def unwrap_segments_def)
qed

lemma import_is_unwrap:
  assumes "fst (PublicKeyCredentialSource_export w enc u c this st) = Inr json"
    and "header_fits enc c (privateKey this)"
    and "base64_inverse u"
    and "descriptor_parses enc (privateKey this)"
    and "getWrappingKey w enc (PIN c) (drawn_salt c st) = Inr wrappingKey"
    and "getWrappingKey w enc P2 (drawn_salt c st) = Inr other"
  shows "\<exists>wrapped.
           wrapKey w (keyExportFormat c) (privateKey this) wrappingKey
             (AesGcmParams (drawn_iv c st)) = Inr wrapped \<and>
           PublicKeyCredentialSource_import w enc u (c\<lparr>PIN := P2\<rparr>) json =
             (case unwrapKey w (keyExportFormat c) wrapped other (AesGcmParams (drawn_iv c st))
                     (algorithm (privateKey this)) True [''sign''] of
                Inl e \<Rightarrow> Inl e
              | Inr k \<Rightarrow>
                  Inr (new_PublicKeyCredentialSource (cred_id this) k (cred_rpId this)
                         (userHandle this)))"
proof -
  from export_import_core [OF assms(1-3)] assms(5) obtain ct where
    ct: "wrapKey w (keyExportFormat c) (privateKey this) wrappingKey
           (AesGcmParams (drawn_iv c st)) = Inr ct"
    and imp: "PublicKeyCredentialSource_import w enc u (c\<lparr>PIN := P2\<rparr>) json =
       unwrap_segments w enc (c\<lparr>PIN := P2\<rparr>) json (drawn_salt c st) (drawn_iv c st)
         (descriptor enc (privateKey this)) ct"
    and flds: "json_id json = cred_id this" "json_rpId json = cred_rpId this"
      "json_userHandle json = userHandle this"
    by auto
  from imp assms(4,6) flds have
    "PublicKeyCredentialSource_import w enc u (c\<lparr>PIN := P2\<rparr>) json =
       (case unwrapKey w (keyExportFormat c) ct other (AesGcmParams (drawn_iv c st))
               (algorithm (privateKey this)) True [''sign''] of
          Inl e \<Rightarrow> Inl e
        | Inr k \<Rightarrow>
            Inr (new_PublicKeyCredentialSource (cred_id this) k (cred_rpId this)
                   (userHandle this)))"
    by (simp add: descriptor_parses_def unwrap_segments_def cong: sum.case_cong)
  with ct show ?thesis by blast
qed

lemma bytes_of_append: "bytes_of (a @ b) = bytes_of a @ bytes_of b"
  by (simp add: bytes_of_def)

lemma bytes_of_NUL: "bytes_of [CHR 0x00] = [0]"
  by (simp add: bytes_of_def)

lemma example_same_key:
  "getWrappingKey toy_subtle toy_encoding (''0000'' @ [CHR 0x00])
     (drawn_salt example_constants empty_chrome) =
   getWrappingKey toy_subtle toy_encoding (PIN example_constants)
     (drawn_salt example_constants empty_chrome)"
proof -
  have k: "hmac_key (bytes_of (''0000'' @ [CHR 0x00])) = hmac_key (bytes_of ''0000'')"
    unfolding bytes_of_append bytes_of_NUL
    by (rule hmac_key_zero) (simp add: length_bytes_of)
  show ?thesis
    unfolding toy_getWrappingKey k by (simp add: example_constants_def)
qed

lemma example_import_source:
  "PublicKeyCredentialSource_import toy_subtle toy_encoding toy_utils example_constants
     example_json = Inr example_source"
  using import_of_export [OF example_export example_source_fits(1) toy_base64_inverse
      example_source_fits(2) toy_unwrap_inverts_wrap example_source_fits(3)]
  by (simp add: example_source_def example_key_def new_PublicKeyCredentialSource_def)

lemma example_descriptor_split:
  "descriptor toy_encoding example_key =
     bytes_of ''{name:ECDSA,namedCurve:P-256'' @ bytes_of ''}''"
  by (simp add: descriptor_def toy_encoding_def example_key_def ECDSA_P256_text_def
      bytes_of_append [symmetric])

lemma example_import_altered:
  "PublicKeyCredentialSource_import toy_subtle toy_encoding toy_utils example_constants
     altered_json = Inl SyntaxError"
proof -
  let ?alg = "bytes_of ''{name:ECDSA,namedCurve:P-256''"
  have dec: "base64ToByteArray toy_utils (json_privateKey altered_json) False =
      Inr (Uint8Array_of [length [0, 1 :: byte], length [2, 3, 4 :: byte], length ?alg]
           @ [0, 1] @ [2, 3, 4] @ ?alg @ (bytes_of ''}'' @ example_wrapped))"
    by (simp add: altered_json_def toy_utils_def bytes_of_text_of example_descriptor_split
        Uint8Array_of_def length_bytes_of)
  have "PublicKeyCredentialSource_import toy_subtle toy_encoding toy_utils example_constants
      altered_json =
      unwrap_segments toy_subtle toy_encoding example_constants altered_json [0, 1] [2, 3, 4]
        ?alg (bytes_of ''}'' @ example_wrapped)"
    by (rule import_parses [OF dec]) (simp_all add: length_bytes_of)
  then show ?thesis
    by (simp add: unwrap_segments_def toy_getWrappingKey)
       (simp add: toy_encoding_def text_of_bytes_of ECDSA_P256_text_def)
qed

text \<open>
  C2 (the claim fails on the code). The claim: for PINs \<open>P1 \<noteq> P2\<close>, unwrapping under
  \<open>P2\<close> what was wrapped under \<open>P1\<close> fails, with one error that is the same for a wrong
  PIN and for altered data, and never yields a key. The PIN reaches the unwrap only
  through the key that PBKDF2 with HMAC derives from it, and HMAC fills its key with zero
  bytes: a PIN and the same PIN followed by a NUL character derive the same key. Here the
  payload exported under \<^verbatim>\<open>0000\<close> is imported under \<^verbatim>\<open>0000\<close> followed by NUL, and the
  key comes back. And the error is that of the step that fails: the same payload with
  the third header byte one less, under the right PIN, fails in \<^verbatim>\<open>JSON.parse\<close> with a
  \<open>SyntaxError\<close>, not with the \<open>OperationError\<close> of the unwrap.
\<close>

theorem import_under_padded_pin:
  "fst (PublicKeyCredentialSource_export toy_subtle toy_encoding toy_utils example_constants
          example_source empty_chrome) = Inr example_json \<and>
   PIN example_constants = ''0000'' \<and>
   ''0000'' @ [CHR 0x00] \<noteq> ''0000'' \<and>
   getWrappingKey toy_subtle toy_encoding (''0000'' @ [CHR 0x00]) [0, 1] =
   getWrappingKey toy_subtle toy_encoding ''0000'' [0, 1] \<and>
   PublicKeyCredentialSource_import toy_subtle toy_encoding toy_utils
     (example_constants\<lparr>PIN := ''0000'' @ [CHR 0x00]\<rparr>) example_json = Inr example_source \<and>
   PublicKeyCredentialSource_import toy_subtle toy_encoding toy_utils example_constants
     altered_json = Inl SyntaxError"
  using import_same_wrapping_key [OF example_export example_source_fits(1) toy_base64_inverse
      example_same_key] example_import_source example_import_altered example_export
    example_same_key
  by (simp add: example_draws) (simp add: example_constants_def)

text \<open>
  C2, as amended. A payload that \<^verbatim>\<open>export()\<close> produced under the PIN \<open>P1\<close> (the constant
  \<open>PIN\<close>) is imported under a PIN \<open>P2\<close>; \<open>wrappingKey\<close> and \<open>other\<close> are the keys that
  \<open>getWrappingKey\<close> derives from \<open>P1\<close> and from \<open>P2\<close> on the salt of the payload. Then
  \<^verbatim>\<open>import(json)\<close> under \<open>P2\<close> gives what the AES-GCM unwrap of the wrapped key under
  \<open>other\<close> gives: its error, or the credential source with the key it returns. So, when
  the two keys differ in material and AES-GCM rejects a key of other material,
  \<^verbatim>\<open>import(json)\<close> under \<open>P2\<close> fails with the \<open>OperationError\<close> of the unwrap and no key
  is returned; and when they are the same key, \<^verbatim>\<open>import(json)\<close> under \<open>P2\<close> returns what
  it returns under \<open>P1\<close>. Assumed: the three lengths are below 256, base64 decoding
  inverts encoding, and the descriptor parses.
\<close>

theorem import_under_other_pin:
  assumes "fst (PublicKeyCredentialSource_export w enc u c this st) = Inr json"
    and "header_fits enc c (privateKey this)"
    and "base64_inverse u"
    and "descriptor_parses enc (privateKey this)"
    and "getWrappingKey w enc (PIN c) (drawn_salt c st) = Inr wrappingKey"
    and "getWrappingKey w enc P2 (drawn_salt c st) = Inr other"
  shows "(\<exists>wrapped.
            wrapKey w (keyExportFormat c) (privateKey this) wrappingKey
              (AesGcmParams (drawn_iv c st)) = Inr wrapped \<and>
            PublicKeyCredentialSource_import w enc u (c\<lparr>PIN := P2\<rparr>) json =
              (case unwrapKey w (keyExportFormat c) wrapped other (AesGcmParams (drawn_iv c st))
                      (algorithm (privateKey this)) True [''sign''] of
                 Inl e \<Rightarrow> Inl e
               | Inr k \<Rightarrow>
                   Inr (new_PublicKeyCredentialSource (cred_id this) k (cred_rpId this)
                          (userHandle this)))) \<and>
         (handle other \<noteq> handle wrappingKey \<longrightarrow> rejects_other_key w (keyExportFormat c) \<longrightarrow>
            PublicKeyCredentialSource_import w enc u (c\<lparr>PIN := P2\<rparr>) json = Inl OperationError) \<and>
         (other = wrappingKey \<longrightarrow>
            PublicKeyCredentialSource_import w enc u (c\<lparr>PIN := P2\<rparr>) json =
            PublicKeyCredentialSource_import w enc u c json)"
proof -
  note import_is_unwrap [OF assms]
  moreover have "PublicKeyCredentialSource_import w enc u (c\<lparr>PIN := P2\<rparr>) json = Inl OperationError"
    if "handle other \<noteq> handle wrappingKey" and "rejects_other_key w (keyExportFormat c)"
    using import_other_wrapping_key [OF assms that] .
  moreover have "PublicKeyCredentialSource_import w enc u (c\<lparr>PIN := P2\<rparr>) json =
      PublicKeyCredentialSource_import w enc u c json" if "other = wrappingKey"
    using import_same_wrapping_key [OF assms(1-3), of P2] assms(5,6) that by simp
  ultimately show ?thesis by blast
qed

theorem import_under_other_pin_witness:
  "fst (PublicKeyCredentialSource_export toy_subtle toy_encoding toy_utils example_constants
          example_source empty_chrome) = Inr example_json \<and>
   header_fits toy_encoding example_constants (privateKey example_source) \<and>
   base64_inverse toy_utils \<and>
   descriptor_parses toy_encoding (privateKey example_source) \<and>
   handle (projr (getWrappingKey toy_subtle toy_encoding ''1234''
                    (drawn_salt example_constants empty_chrome))) \<noteq>
   handle (projr (getWrappingKey toy_subtle toy_encoding (PIN example_constants)
                    (drawn_salt example_constants empty_chrome))) \<and>
   rejects_other_key toy_subtle (keyExportFormat example_constants) \<and>
   PublicKeyCredentialSource_import toy_subtle toy_encoding toy_utils
     (example_constants\<lparr>PIN := ''1234''\<rparr>) example_json = Inl OperationError \<and>
   getWrappingKey toy_subtle toy_encoding (''0000'' @ [CHR 0x00])
     (drawn_salt example_constants empty_chrome) =
   getWrappingKey toy_subtle toy_encoding (PIN example_constants)
     (drawn_salt example_constants empty_chrome) \<and>
   PublicKeyCredentialSource_import toy_subtle toy_encoding toy_utils
     (example_constants\<lparr>PIN := ''0000'' @ [CHR 0x00]\<rparr>) example_json =
   PublicKeyCredentialSource_import toy_subtle toy_encoding toy_utils example_constants
     example_json"
proof -
  let ?salt = "drawn_salt example_constants empty_chrome"
  let ?key = "\<lambda>pin. \<lparr>key_type = Secret, extractable = True,
          algorithm = JObject [(''name'', JString ''AES-GCM''), (''length'', JNumber 256)],
          usages = [''wrapKey'', ''unwrapKey''],
          handle = hmac_key (bytes_of pin) @ ?salt\<rparr>"
  have differ: "handle (?key ''1234'') \<noteq> handle (?key (PIN example_constants))"
    by (simp add: hmac_key_short length_bytes_of example_constants_def)
       (simp add: bytes_of_def)
  have same: "?key (''0000'' @ [CHR 0x00]) = ?key (PIN example_constants)"
    using example_same_key by (simp add: toy_getWrappingKey)
  from import_under_other_pin [OF example_export example_source_fits(1) toy_base64_inverse
      example_source_fits(2) toy_getWrappingKey toy_getWrappingKey, of "''1234''"]
    import_under_other_pin [OF example_export example_source_fits(1) toy_base64_inverse
      example_source_fits(2) toy_getWrappingKey toy_getWrappingKey, of "''0000'' @ [CHR 0x00]"]
    differ same toy_rejects_other_key [of "keyExportFormat example_constants"]
    example_export example_source_fits toy_base64_inverse example_same_key
  show ?thesis
    by (simp add: toy_getWrappingKey)
qed

section \<open>Delegation lookup\<close>

lemma getDelegation_no_match:
  assumes "lastError st = None" and "storage_sync st DELEGATION = Some del"
    and "\<forall>x \<in> set del. item_backupId x \<noteq> Val credentialId"
  shows "getDelegation credentialId st = Inr Null"
proof -
  from assms(3) have "filter (\<lambda>x. item_backupId x = Val credentialId) del = []"
    by (simp add: filter_empty_conv)
  with assms(1,2) show ?thesis
    by (simp add: getDelegation_def fetchDelegations_def)
qed

lemma getRecoveryOptions_no_delegation:
  assumes "lastError st = None" and "storage_sync st DELEGATION = Some del"
    and "\<forall>x \<in> set del. item_backupId x \<noteq> Val backupCredentialId"
  shows "getRecoveryOptions w backupCredentialId st = Inl TypeError"
  using getDelegation_no_match [OF assms] by (simp add: getRecoveryOptions_def)

text \<open>
  C4 (the code departs from the claim). The claim: the lookup returns the first stored
  delegation whose \<open>backupId\<close> is the requested id. \<open>getDelegation\<close> filters the list
  by \<open>backupId\<close>, but when the filtered list is not empty it returns element 0 of the
  unfiltered list: the first stored delegation, whatever its \<open>backupId\<close>. (Its sibling
  \<open>getRecoveryKey\<close> returns element 0 of the filtered list.)
\<close>

theorem getDelegation_returns_first_stored:
  assumes "lastError st = None" and "storage_sync st DELEGATION = Some (d # ds)"
    and "\<exists>x \<in> set (d # ds). item_backupId x = Val credentialId"
  shows "getDelegation credentialId st = Inr (Val d)"
proof -
  from assms(3) have "filter (\<lambda>x. item_backupId x = Val credentialId) (d # ds) \<noteq> []"
    unfolding filter_empty_conv by blast
  with assms(1,2) show ?thesis
    by (simp add: getDelegation_def fetchDelegations_def)
qed

theorem getDelegation_returns_first_stored_witness:
  "lastError chrome_AB = None \<and>
   storage_sync chrome_AB DELEGATION =
     Some [DelegationItem delegation_A, DelegationItem delegation_B] \<and>
   (\<exists>x \<in> set [DelegationItem delegation_A, DelegationItem delegation_B].
      item_backupId x = Val ''B'') \<and>
   getDelegation ''B'' chrome_AB = Inr (Val (DelegationItem delegation_A)) \<and>
   backupId delegation_A \<noteq> ''B'' \<and> backupId delegation_B = ''B''"
  using getDelegation_returns_first_stored
    [of chrome_AB "DelegationItem delegation_A" "[DelegationItem delegation_B]" "''B''"]
  by (simp add: chrome_AB_def empty_chrome_def delegation_A_def delegation_B_def DELEGATION_def)

section \<open>Popping a key\<close>

text \<open>
  C7 (the code departs from the claim). The claim: a pop on a pool of size \<open>n > 0\<close>
  returns the last key and stores the other \<open>n - 1\<close>; a pop on an empty pool fails; no
  id is returned twice. \<open>popPSKKey\<close> tests for the empty pool and throws. The
  \<open>popBackupKey\<close> of recovery.ts has no such test: on an empty pool \<^verbatim>\<open>pop()\<close> gives
  \<^verbatim>\<open>undefined\<close>, the empty pool is stored again, and the promise resolves with
  \<^verbatim>\<open>undefined\<close>.
\<close>

theorem recovery_popBackupKey_empty_pool:
  assumes "lastError st = None" and "storage_sync st identifier = Some []"
  shows "fst (recovery_popBackupKey identifier st) = Inr Undefined \<and>
         storage_sync (snd (recovery_popBackupKey identifier st)) identifier = Some []"
  using assms
  by (simp add: recovery_popBackupKey_def recovery_fetchBackupKeys_def
      recovery_storeBackupKeys_def array_pop_def await_def reading_def resolve_def)

theorem recovery_popBackupKey_empty_pool_witness:
  "lastError chrome_empty_pool = None \<and>
   storage_sync chrome_empty_pool ''backup'' = Some [] \<and>
   fst (recovery_popBackupKey ''backup'' chrome_empty_pool) = Inr Undefined \<and>
   storage_sync (snd (recovery_popBackupKey ''backup'' chrome_empty_pool)) ''backup'' = Some []"
  using recovery_popBackupKey_empty_pool [of chrome_empty_pool "''backup''"]
  by (simp add: chrome_empty_pool_def empty_chrome_def)

text \<open>
  The pop of recovery.ts works on whatever array is stored under the identifier: under
  \<^verbatim>\<open>"delegation"\<close> it takes the last delegation.
\<close>

lemma recovery_popBackupKey_delegation:
  "recovery_popBackupKey ''delegation'' chrome_AB =
     (Inr (Val (DelegationItem delegation_B)),
      chrome_AB\<lparr>storage_sync := [''delegation'' \<mapsto> [DelegationItem delegation_A]]\<rparr>)"
  by (simp add: recovery_popBackupKey_def recovery_fetchBackupKeys_def
      recovery_storeBackupKeys_def array_pop_def await_def reading_def resolve_def
      chrome_AB_def empty_chrome_def)

section \<open>Asynchronous code: when a sequence resolves\<close>

lemma await_resolves:
  "await m f st = (Inr y, st') \<longleftrightarrow> (\<exists>x s. m st = (Inr x, s) \<and> f x s = (Inr y, st'))"
  by (auto simp: await_def split: prod.splits sum.splits)

lemma settled_resolves: "settled r st = (Inr x, st') \<longleftrightarrow> r = Inr x \<and> st' = st"
  by (auto simp: settled_def)

lemma reading_resolves: "reading f st = (Inr x, st') \<longleftrightarrow> f st = Inr x \<and> st' = st"
  by (auto simp: reading_def)

lemma resolve_resolves: "resolve x st = (Inr y, st') \<longleftrightarrow> y = x \<and> st' = st"
  by (auto simp: resolve_def)

lemma reject_resolves: "reject e st = (Inr y, st') \<longleftrightarrow> False"
  by (simp add: reject_def)

section \<open>The scan over the offered credentials\<close>

lemma scanCredentials_find:
  assumes "\<forall>rc \<in> set (takeWhile (\<lambda>rc. isl (fetched env pin st rc)) allow).
             fetched env pin st rc \<noteq> Inl Unsettled"
  shows "scanCredentials env pin st allow =
           Inr (map_option (\<lambda>rc. (projr (fetched env pin st rc), descriptor_id rc,
                                  byteArrayToBase64 (env_utils env) (descriptor_id rc) True))
                  (find (\<lambda>rc. \<not> isl (fetched env pin st rc)) allow))"
  using assms
proof (induction allow)
  case Nil
  then show ?case by simp
next
  case (Cons rc allow)
  show ?case
  proof (cases "fetched env pin st rc")
    case (Inl e)
    with Cons.prems have "e \<noteq> Unsettled" by auto
    with Inl have "catch_null (fetched env pin st rc) = Inr Null"
      by (cases e) (simp_all add: catch_null_def)
    moreover from Inl Cons.prems
    have "\<forall>rc \<in> set (takeWhile (\<lambda>rc. isl (fetched env pin st rc)) allow).
             fetched env pin st rc \<noteq> Inl Unsettled" by simp
    ultimately show ?thesis using Inl Cons.IH by (simp add: fetched_def Let_def)
  next
    case (Inr key)
    then show ?thesis by (simp add: fetched_def catch_null_def Let_def)
  qed
qed

lemma scan_singleton:
  assumes "fetched env pin st rc = Inr key"
  shows "scanCredentials env pin st [rc] =
           Inr (Some (key, descriptor_id rc,
                      byteArrayToBase64 (env_utils env) (descriptor_id rc) True))"
  using assms by (simp add: fetched_def catch_null_def Let_def)

lemma import_privateKey_cong:
  assumes "json_privateKey json = json_privateKey json'"
  shows "map_sum (\<lambda>e. e) privateKey (PublicKeyCredentialSource_import w enc u c json) =
         map_sum (\<lambda>e. e) privateKey (PublicKeyCredentialSource_import w enc u c json')"
  using assms
  by (simp add: PublicKeyCredentialSource_import_def Let_def new_PublicKeyCredentialSource_def
      split: sum.splits)

lemma toy_base64_of_text:
  "byteArrayToBase64 toy_utils (bytes_of s) url = s"
  by (simp add: toy_utils_def text_of_bytes_of)

lemma toy_base64_descriptor:
  "byteArrayToBase64 toy_utils (descriptor_id (descriptor_of s)) url = s"
  by (simp add: descriptor_of_def toy_base64_of_text)

lemma example_import:
  "PublicKeyCredentialSource_import toy_subtle toy_encoding toy_utils example_constants
     example_json = Inr example_source"
  using import_of_export [of toy_subtle toy_encoding toy_utils example_constants
      example_source empty_chrome example_json]
    example_export example_header_fits toy_base64_inverse example_descriptor_parses
    toy_unwrap_inverts_wrap [of "keyExportFormat example_constants"]
  by (simp add: example_source_def example_key_def new_PublicKeyCredentialSource_def)

lemma example_fetched_cred1:
  "fetched example_env ''0000'' chrome_store (descriptor_of ''cred-1'') = Inr example_key"
proof -
  have c: "example_constants\<lparr>PIN := ''0000''\<rparr> = example_constants"
    by (simp add: example_constants_def)
  have "map_sum (\<lambda>e. e) privateKey
          (PublicKeyCredentialSource_import toy_subtle toy_encoding toy_utils example_constants
             \<lparr>json_id = ''cred-1'', json_privateKey = json_privateKey example_json,
              json_rpId = [], json_userHandle = Null, json_type = ''public-key''\<rparr>) =
        Inr example_key"
    using import_privateKey_cong [of
        "\<lparr>json_id = ''cred-1'', json_privateKey = json_privateKey example_json,
              json_rpId = [], json_userHandle = Null, json_type = ''public-key''\<rparr>"
        example_json toy_subtle toy_encoding toy_utils example_constants]
    by (simp add: example_import example_source_def)
  then show ?thesis
    by (auto simp: fetched_def fetchKey_def toy_base64_descriptor example_env_def
        chrome_store_def empty_chrome_def c split: sum.splits)
qed

lemma example_fetched_nope:
  "fetched example_env ''0000'' chrome_store (descriptor_of ''nope'') =
     Inl (ModuleError ''key not found'')"
  by (simp add: fetched_def fetchKey_def toy_base64_descriptor example_env_def
      chrome_store_def empty_chrome_def)

text \<open>
  C6. In the flow without the recovery extension the offered ids are tried in the order
  given. The id selected is the first one whose key is fetched, that is, stored and
  unwrapped with the PIN (\<open>find\<close> returns the first element that satisfies a predicate);
  the flow then goes on as if that id had been offered alone, so no later id matters. When
  no offered id is fetched the flow fails with the "credential not found" error. Assumed:
  each failing fetch ahead of the selected id settles (a rejection is caught, a promise
  that stays pending is not).
\<close>

theorem processCredentialRequest_selects_first:
  assumes "allowCredentials publicKeyRequestOptions = Val allow"
    and "requestsPSK (request_extensions publicKeyRequestOptions) = Inr False"
    and "\<forall>rc \<in> set (takeWhile (\<lambda>rc. isl (fetched env pin st rc)) allow).
           fetched env pin st rc \<noteq> Inl Unsettled"
  shows "case find (\<lambda>rc. \<not> isl (fetched env pin st rc)) allow of
           None \<Rightarrow>
             processCredentialRequest env origin publicKeyRequestOptions pin st =
               (Inl (CredentialNotFound (map descriptor_id allow)), st)
         | Some rc \<Rightarrow>
             scanCredentials env pin st allow =
               Inr (Some (projr (fetched env pin st rc), descriptor_id rc,
                          byteArrayToBase64 (env_utils env) (descriptor_id rc) True)) \<and>
             processCredentialRequest env origin publicKeyRequestOptions pin st =
               processCredentialRequest env origin
                 (publicKeyRequestOptions\<lparr>allowCredentials := Val [rc]\<rparr>) pin st"
proof (cases "find (\<lambda>rc. \<not> isl (fetched env pin st rc)) allow")
  case None
  with scanCredentials_find [OF assms(3)] have "scanCredentials env pin st allow = Inr None"
    by simp
  with None assms(1,2) show ?thesis
    by (simp add: processCredentialRequest_def await_def settled_def reading_def reject_def)
next
  case (Some rc)
  then have "\<not> isl (fetched env pin st rc)" by (auto simp: find_Some_iff)
  then obtain key where key: "fetched env pin st rc = Inr key"
    by (cases "fetched env pin st rc") simp_all
  from scanCredentials_find [OF assms(3)] Some key
  have scan: "scanCredentials env pin st allow =
      Inr (Some (key, descriptor_id rc,
                 byteArrayToBase64 (env_utils env) (descriptor_id rc) True))"
    by simp
  with scan_singleton [OF key] assms(1,2)
  have "processCredentialRequest env origin publicKeyRequestOptions pin st =
        processCredentialRequest env origin
          (publicKeyRequestOptions\<lparr>allowCredentials := Val [rc]\<rparr>) pin st"
    by (simp add: processCredentialRequest_def await_def settled_def reading_def)
  with Some scan key show ?thesis by simp
qed

theorem processCredentialRequest_selects_first_witness:
  "allowCredentials example_request =
     Val [descriptor_of ''nope'', descriptor_of ''cred-1'', descriptor_of ''later''] \<and>
   requestsPSK (request_extensions example_request) = Inr False \<and>
   takeWhile (\<lambda>rc. isl (fetched example_env ''0000'' chrome_store rc))
     [descriptor_of ''nope'', descriptor_of ''cred-1'', descriptor_of ''later'']
     = [descriptor_of ''nope''] \<and>
   fetched example_env ''0000'' chrome_store (descriptor_of ''nope'')
     = Inl (ModuleError ''key not found'') \<and>
   find (\<lambda>rc. \<not> isl (fetched example_env ''0000'' chrome_store rc))
     [descriptor_of ''nope'', descriptor_of ''cred-1'', descriptor_of ''later'']
     = Some (descriptor_of ''cred-1'') \<and>
   scanCredentials example_env ''0000'' chrome_store
     [descriptor_of ''nope'', descriptor_of ''cred-1'', descriptor_of ''later''] =
     Inr (Some (example_key, descriptor_id (descriptor_of ''cred-1''), ''cred-1'')) \<and>
   processCredentialRequest example_env ''https://rp.example'' example_request ''0000''
     chrome_store =
   processCredentialRequest example_env ''https://rp.example''
     (example_request\<lparr>allowCredentials := Val [descriptor_of ''cred-1'']\<rparr>) ''0000'' chrome_store"
  using processCredentialRequest_selects_first [of example_request
      "[descriptor_of ''nope'', descriptor_of ''cred-1'', descriptor_of ''later'']"
      example_env "''0000''" chrome_store "''https://rp.example''"]
  by (simp add: example_fetched_nope example_fetched_cred1 example_request_def requestsPSK_def)
     (simp add: toy_base64_descriptor example_env_def)

section \<open>Creating a credential\<close>

lemma storePSKKeys_frame:
  assumes "storePSKKeys w identifier psk st = (r, st')"
  shows "lastError st' = lastError st \<and> sync_wrapped st' = sync_wrapped st \<and>
         random st' = random st \<and> storage_local st' = storage_local st"
  using assms by (auto simp: storePSKKeys_def split: sum.splits option.splits)

lemma popPSKKey_frame:
  assumes "popPSKKey w identifier st = (r, st')"
  shows "lastError st' = lastError st \<and> sync_wrapped st' = sync_wrapped st \<and>
         random st' = random st \<and> storage_local st' = storage_local st"
  using assms
  by (auto simp: popPSKKey_def await_def reading_def reject_def resolve_def Let_def
      split: sum.splits prod.splits if_splits dest: storePSKKeys_frame)

lemma fetchPSKKeys_resolves:
  "fetchPSKKeys w identifier st = Inr ks \<Longrightarrow> lastError st = None"
  by (auto simp: fetchPSKKeys_def split: option.splits)

lemma popPSKKey_resolves:
  assumes "popPSKKey w identifier st = (Inr k, st')"
  shows "lastError st = None"
  using assms
  by (auto simp: popPSKKey_def await_resolves reading_resolves dest: fetchPSKKeys_resolves)

lemma draw_resolves:
  "draw f st = (Inr x, st') \<longleftrightarrow> (\<exists>rest. f (random st) = (Inr x, rest) \<and> st' = st\<lparr>random := rest\<rparr>)"
  by (auto simp: draw_def split: prod.splits)

lemma export_run:
  assumes "saltLength c \<le> 65536" and "ivLength c \<le> 65536"
    and "getWrappingKey w enc (PIN c) (drawn_salt c st) = Inr wk"
    and "wrapKey w (keyExportFormat c) (privateKey this) wk (AesGcmParams (drawn_iv c st)) = Inr ct"
  shows "PublicKeyCredentialSource_export w enc u c this st =
           (Inr \<lparr>json_id = cred_id this,
                json_privateKey = byteArrayToBase64 u
                  (Uint8Array_of [saltLength c, ivLength c, length (descriptor enc (privateKey this))]
                   @ drawn_salt c st @ drawn_iv c st @ descriptor enc (privateKey this) @ ct) False,
                json_rpId = cred_rpId this, json_userHandle = userHandle this,
                json_type = cred_type this\<rparr>,
            st\<lparr>random := (\<lambda>i. random st (i + ivLength c + saltLength c))\<rparr>)"
  using assms
  by (simp add: PublicKeyCredentialSource_export_def await_def getRandomValues_def settled_def
      resolve_def drawn_salt_def drawn_iv_def descriptor_def concatenate_def Let_def)

lemma creation_run:
  assumes "attestation publicKeyCreationOptions = Val ''none''"
    and "requestsPSK (creation_extensions publicKeyCreationOptions) = Inr False"
    and "BackupKey_get env st = (Inr bckpKey, st1)"
    and "base64ToByteArray (env_utils env) (psk_id bckpKey) True = Inr credId"
    and "keyExists (byteArrayToBase64 (env_utils env) credId True) st1 = Inr False"
    and "getCompatibleKey (env_crypto env) (pubKeyCredParams publicKeyCreationOptions)
           (random st1) = (Inr compatibleKey, rest)"
    and "generateAuthenticatorData (env_crypto env) compatibleKey
           (or_else (rp_id (rp publicKeyCreationOptions))
              (getDomainFromOrigin (env_utils env) origin)) 0 credId Null = Inr authData"
    and "generateClientData (env_crypto env) compatibleKey
           (creation_challenge publicKeyCreationOptions)
           (JObject [(''origin'', JString origin), (''type'', JString ''webauthn.create'')])
         = Inr clientData"
    and "saveKey env (byteArrayToBase64 (env_utils env) credId True)
           (ck_privateKey compatibleKey) pin (st1\<lparr>random := rest\<rparr>) = (Inr (), st3)"
    and "btoa (env_encoding env) clientData = Inr encoded"
    and "base64ToByteArray (env_utils env) encoded False = Inr json"
  shows "processCredentialCreation env origin publicKeyCreationOptions pin st =
           (Inr (Val \<lparr>pkc_id = byteArrayToBase64 (env_utils env) credId True,
                      rawId = credId,
                      response = AttestationResponse
                        (CBOR_encodeCanonical (env_cbor env)
                           (JObject [(''attStmt'', JObject []), (''authData'', JBytes authData),
                                     (''fmt'', JString ''none'')])) json,
                      pkc_type = ''public-key''\<rparr>), st3)"
  using assms
  by (simp add: processCredentialCreation_def await_def settled_def reading_def resolve_def
      draw_def Let_def)

lemma toy_parseJWK:
  "parseJWK toy_subtle (JObject [(''kid'', JString s), (''x'', JString b)]) =
     Inr \<lparr>key_type = Public, extractable = True, algorithm = ECDSA_P256, usages = [],
          handle = bytes_of b\<rparr>"
  by (simp add: parseJWK_def toy_subtle_def toy_importKey_def ECDSA_P256_def)


lemma toy_parseJWK_public:
  "parseJWK toy_subtle (JObject [(''x'', JString b)]) =
     Inr \<lparr>key_type = Public, extractable = True, algorithm = ECDSA_P256, usages = [],
          handle = bytes_of b\<rparr>"
  by (simp add: parseJWK_def toy_subtle_def toy_importKey_def ECDSA_P256_def)

lemma toy_pop_single:
  assumes "lastError st = None"
    and "storage_sync st ''backup'' = Some [KeyItem (backup_entry s)]"
  shows "BackupKey_get example_env st =
           (Inr (backup_key s), st\<lparr>storage_sync := (storage_sync st)(''backup'' \<mapsto> [])\<rparr>)"
  using assms
  by (simp add: BackupKey_get_def popBackupKey_def popPSKKey_def BACKUP_def example_env_def
      await_def reading_def resolve_def fetchPSKKeys_def backup_entry_def toy_parseJWK
      backup_key_def storePSKKeys_def Let_def)

lemma toy_base64_to_bytes:
  "base64ToByteArray toy_utils s url = Inr (descriptor_id (descriptor_of s))"
  by (simp add: toy_utils_def descriptor_of_def)

lemma toy_saveKey:
  assumes "lastError st = None" and "extractable k"
  shows "saveKey example_env key k pin st =
           (Inr (), st\<lparr>random := (\<lambda>i. random st (i + 3 + 2)),
                        sync_wrapped := (sync_wrapped st)(key \<mapsto>
                          byteArrayToBase64 toy_utils
                            ([2, 3, word_of_nat (length (descriptor toy_encoding k))]
                             @ drawn_salt example_constants st @ drawn_iv example_constants st
                             @ descriptor toy_encoding k
                             @ replicate (64 + 2) 1 @ [0]
                             @ (hmac_key (bytes_of pin) @ drawn_salt example_constants st)
                             @ [keyType_byte (key_type k)] @ handle k) False)\<rparr>)"
proof -
  let ?c = "example_constants\<lparr>PIN := pin\<rparr>"
  let ?src = "\<lparr>cred_id = key, privateKey = k, cred_rpId = [], userHandle = Null,
               cred_type = ''public-key''\<rparr>"
  have sz: "saltLength ?c \<le> 65536" "ivLength ?c \<le> 65536" "saltLength ?c = 2" "ivLength ?c = 3"
    by (simp_all add: example_constants_def)
  have dr: "drawn_salt ?c st = drawn_salt example_constants st"
    "drawn_iv ?c st = drawn_iv example_constants st"
    by (simp_all add: drawn_salt_def drawn_iv_def)
  have len: "length (hmac_key (bytes_of pin)) = 64"
    by (simp add: hmac_key_def toy_digest_def Let_def)
  from assms(2) have
    ct: "wrapKey toy_subtle (keyExportFormat ?c) (privateKey ?src)
           \<lparr>key_type = Secret, extractable = True,
            algorithm = JObject [(''name'', JString ''AES-GCM''), (''length'', JNumber 256)],
            usages = [''wrapKey'', ''unwrapKey''],
            handle = hmac_key (bytes_of (PIN ?c)) @ drawn_salt ?c st\<rparr>
           (AesGcmParams (drawn_iv ?c st)) =
         Inr (replicate (64 + 2) 1 @ [0]
              @ (hmac_key (bytes_of pin) @ drawn_salt example_constants st)
              @ [keyType_byte (key_type k)] @ handle k)"
    by (simp add: toy_subtle_def toy_wrapKey_def len dr)
       (simp add: drawn_salt_def example_constants_def)
  from export_run [OF sz(1,2) toy_getWrappingKey ct, where u = toy_utils] assms(1) sz(3,4)
  show ?thesis
    by (simp add: saveKey_def example_env_def await_def dr Uint8Array_of_def)
qed

lemma toy_saveKey_stores:
  assumes "lastError st = None" and "extractable k"
  shows "\<exists>payload. saveKey example_env key k pin st =
           (Inr (), st\<lparr>random := (\<lambda>i. random st (i + 3 + 2)),
                        sync_wrapped := (sync_wrapped st)(key \<mapsto> payload)\<rparr>)"
  using toy_saveKey [OF assms] by blast

lemma example_creation_run:
  "\<exists>payload. processCredentialCreation example_env ''https://rp.example'' example_creation ''0000''
     chrome_pool =
     (Inr (Val example_credential),
      chrome_pool\<lparr>storage_sync := [''backup'' \<mapsto> []],
         random := (\<lambda>i. random chrome_pool (i + 3 + 2 + 2)),
         sync_wrapped := [''BK1'' \<mapsto> payload]\<rparr>)"
proof -
  let ?st1 = "chrome_pool\<lparr>storage_sync := (storage_sync chrome_pool)(''backup'' \<mapsto> [])\<rparr>"
  have att: "attestation example_creation = Val ''none''"
    "requestsPSK (creation_extensions example_creation) = Inr False"
    by (simp_all add: example_creation_def requestsPSK_def)
  have pop: "BackupKey_get example_env chrome_pool = (Inr (backup_key ''BK1''), ?st1)"
    by (rule toy_pop_single) (simp_all add: chrome_pool_def empty_chrome_def)
  have dec: "base64ToByteArray (env_utils example_env) (psk_id (backup_key ''BK1'')) True =
     Inr (bytes_of ''BK1'')"
    by (simp add: example_env_def backup_key_def toy_utils_def)
  have enc: "byteArrayToBase64 (env_utils example_env) (bytes_of ''BK1'') True = ''BK1''"
    by (simp add: example_env_def toy_base64_of_text)
  have ex: "keyExists (byteArrayToBase64 (env_utils example_env) (bytes_of ''BK1'') True) ?st1
      = Inr False"
    by (simp add: enc keyExists_def chrome_pool_def empty_chrome_def)
  have gen: "getCompatibleKey (env_crypto example_env) (pubKeyCredParams example_creation)
      (random ?st1) = (Inr example_fresh, \<lambda>i. random ?st1 (i + 2))"
    by (simp add: example_env_def toy_crypto_def example_creation_def example_fresh_def
        chrome_pool_def empty_chrome_def)
  have dom: "or_else (rp_id (rp example_creation))
      (getDomainFromOrigin (env_utils example_env) ''https://rp.example'') = ''rp.example''"
    by (simp add: or_else_def example_creation_def example_env_def toy_utils_def)
  have ad: "generateAuthenticatorData (env_crypto example_env) example_fresh
      (or_else (rp_id (rp example_creation))
         (getDomainFromOrigin (env_utils example_env) ''https://rp.example'')) 0
      (bytes_of ''BK1'') Null = Inr (bytes_of ''rp.example'' @ [0] @ bytes_of ''BK1'')"
    unfolding dom by (simp add: example_env_def toy_crypto_def)
  have cd: "generateClientData (env_crypto example_env) example_fresh
      (creation_challenge example_creation)
      (JObject [(''origin'', JString ''https://rp.example''), (''type'', JString ''webauthn.create'')])
      = Inr (''https://rp.example'' @ '' '' @ text_of [5, 6])"
    by (simp add: example_env_def toy_crypto_def example_creation_def)
  have "lastError (?st1\<lparr>random := \<lambda>i. random ?st1 (i + 2)\<rparr>) = None"
    "extractable (ck_privateKey example_fresh)"
    by (simp_all add: chrome_pool_def empty_chrome_def example_fresh_def)
  from toy_saveKey_stores [OF this, of "''BK1''" "''0000''"] obtain payload where
    save: "saveKey example_env
        (byteArrayToBase64 (env_utils example_env) (bytes_of ''BK1'') True)
        (ck_privateKey example_fresh) ''0000''
        (?st1\<lparr>random := \<lambda>i. random ?st1 (i + 2)\<rparr>) =
      (Inr (), chrome_pool\<lparr>storage_sync := [''backup'' \<mapsto> []],
         random := (\<lambda>i. random chrome_pool (i + 3 + 2 + 2)),
         sync_wrapped := [''BK1'' \<mapsto> payload]\<rparr>)"
    unfolding enc by (auto simp: chrome_pool_def empty_chrome_def)
  have b: "btoa (env_encoding example_env) (''https://rp.example'' @ '' '' @ text_of [5, 6])
      = Inr (''https://rp.example'' @ '' '' @ text_of [5, 6])"
    by (simp add: example_env_def toy_encoding_def)
  have j: "base64ToByteArray (env_utils example_env)
      (''https://rp.example'' @ '' '' @ text_of [5, 6]) False =
      Inr (bytes_of (''https://rp.example'' @ '' '' @ text_of [5, 6]))"
    by (simp add: example_env_def toy_utils_def)
  from creation_run [OF att pop dec ex gen ad cd save b j]
  have "processCredentialCreation example_env ''https://rp.example'' example_creation ''0000''
     chrome_pool =
     (Inr (Val example_credential),
      chrome_pool\<lparr>storage_sync := [''backup'' \<mapsto> []],
         random := (\<lambda>i. random chrome_pool (i + 3 + 2 + 2)),
         sync_wrapped := [''BK1'' \<mapsto> payload]\<rparr>)"
    by (simp add: example_credential_def example_env_def toy_cbor_def toy_cbor_encode_def
        toy_base64_of_text)
  then show ?thesis by blast
qed

text \<open>
  C8. During creation, when the credential id derived from the chosen key is already a key
  of the store, the flow fails with the "credential ... already exists" error and the
  store of wrapped keys is as it was. The store is keyed by the credential id alone, so
  the relying party of the request and of the stored credential play no part. (The backup
  key taken before the test stays taken: \<open>st1\<close> is the state after \<^verbatim>\<open>BackupKey.get()\<close>.)
\<close>

theorem creation_rejects_existing_id:
  assumes "attestation publicKeyCreationOptions = Val ''none''"
    and "requestsPSK (creation_extensions publicKeyCreationOptions) = Inr supportRecovery"
    and "BackupKey_get env st = (Inr bckpKey, st1)"
    and "base64ToByteArray (env_utils env) (psk_id bckpKey) True = Inr credId"
    and "sync_wrapped st (byteArrayToBase64 (env_utils env) credId True) \<noteq> None"
  shows "processCredentialCreation env origin publicKeyCreationOptions pin st =
           (Inl (CredentialExists (byteArrayToBase64 (env_utils env) credId True)), st1) \<and>
         sync_wrapped st1 = sync_wrapped st"
proof -
  from assms(3) have pop: "popPSKKey (env_subtle env) BACKUP st = (Inr bckpKey, st1)"
    by (simp add: BackupKey_get_def popBackupKey_def)
  from popPSKKey_frame [OF pop] popPSKKey_resolves [OF pop]
  have fr: "lastError st1 = None" "sync_wrapped st1 = sync_wrapped st" by simp_all
  with assms(5) have "keyExists (byteArrayToBase64 (env_utils env) credId True) st1 = Inr True"
    by (simp add: keyExists_def)
  with assms(1-4) fr show ?thesis
    by (simp add: processCredentialCreation_def await_def settled_def reading_def reject_def
        Let_def)
qed

theorem creation_rejects_existing_id_witness:
  "attestation example_creation = Val ''none'' \<and>
   requestsPSK (creation_extensions example_creation) = Inr False \<and>
   BackupKey_get example_env chrome_duplicate =
     (Inr (backup_key ''cred-1''), chrome_duplicate\<lparr>storage_sync := [''backup'' \<mapsto> []]\<rparr>) \<and>
   base64ToByteArray (env_utils example_env) (psk_id (backup_key ''cred-1'')) True =
     Inr (descriptor_id (descriptor_of ''cred-1'')) \<and>
   sync_wrapped chrome_duplicate ''cred-1'' \<noteq> None \<and>
   processCredentialCreation example_env ''https://rp.example'' example_creation ''0000''
     chrome_duplicate =
     (Inl (CredentialExists ''cred-1''), chrome_duplicate\<lparr>storage_sync := [''backup'' \<mapsto> []]\<rparr>)"
proof -
  have pop: "BackupKey_get example_env chrome_duplicate =
     (Inr (backup_key ''cred-1''), chrome_duplicate\<lparr>storage_sync := [''backup'' \<mapsto> []]\<rparr>)"
    using toy_pop_single [of chrome_duplicate "''cred-1''"]
    by (simp add: chrome_duplicate_def chrome_store_def empty_chrome_def)
  have dec: "base64ToByteArray (env_utils example_env) (psk_id (backup_key ''cred-1'')) True =
     Inr (descriptor_id (descriptor_of ''cred-1''))"
    by (simp add: example_env_def backup_key_def toy_base64_to_bytes)
  have stored: "sync_wrapped chrome_duplicate
      (byteArrayToBase64 (env_utils example_env) (descriptor_id (descriptor_of ''cred-1'')) True)
      \<noteq> None"
    by (simp add: example_env_def toy_base64_descriptor chrome_duplicate_def chrome_store_def)
  have att: "attestation example_creation = Val ''none''"
    "requestsPSK (creation_extensions example_creation) = Inr False"
    by (simp_all add: example_creation_def requestsPSK_def)
  from creation_rejects_existing_id [OF att pop dec stored, of "''https://rp.example''" "''0000''"]
    att pop dec stored
  show ?thesis by (simp add: example_env_def toy_base64_descriptor)
qed

text \<open>
  C3 (the claim fails on the code). The claim: a backup key is popped and used as the
  identity of the new credential only when the request carries the recovery extension;
  without it a fresh key pair is generated, the credential id comes from the fresh key and
  no backup key is consumed. In the code \<^verbatim>\<open>BackupKey.get()\<close> and the derivation of the id
  from the backup key's id come before any look at the extension flag, which only decides
  whether the extension output is built. Here a request without the extension, on a pool
  of one backup key \<^verbatim>\<open>BK1\<close>, yields the credential id \<^verbatim>\<open>BK1\<close> and leaves the pool empty.
\<close>

theorem creation_without_extension_takes_backup_key:
  "requestsPSK (creation_extensions example_creation) = Inr False \<and>
   storage_sync chrome_pool ''backup'' = Some [KeyItem (backup_entry ''BK1'')] \<and>
   fst (processCredentialCreation example_env ''https://rp.example'' example_creation ''0000''
          chrome_pool) = Inr (Val example_credential) \<and>
   pkc_id example_credential = ''BK1'' \<and>
   storage_sync (snd (processCredentialCreation example_env ''https://rp.example''
                        example_creation ''0000'' chrome_pool)) ''backup'' = Some []"
  using example_creation_run
  by (auto simp: example_creation_def requestsPSK_def chrome_pool_def empty_chrome_def
      example_credential_def)

text \<open>
  C3, as amended. In the creation flow with attestation \<^verbatim>\<open>none\<close> and an extension object
  that is not \<^verbatim>\<open>null\<close>, whether or not the recovery extension is in it (\<open>supportRecovery\<close>
  is either): \<^verbatim>\<open>BackupKey.get()\<close> is called first, and when it fails the flow fails with its
  error. When it gives a backup key whose id decodes to \<open>credId\<close>, the re-encoded id is
  not yet a key of the store, and \<^verbatim>\<open>getCompatibleKey\<close> gives a fresh key pair for the
  requested algorithms, the flow goes on as follows, failing with the error of the first
  step that fails: the extension output is built from the backup key when the extension
  is requested and is \<^verbatim>\<open>null\<close> otherwise; the authenticator data is generated under the
  fresh key for \<open>credId\<close> and that extension output; the private key of the fresh pair is
  stored under the re-encoded id with the caller's PIN; and the flow resolves with the
  credential whose raw id is \<open>credId\<close>, the decoded id of the backup key.
\<close>

theorem creation_takes_backup_key:
  assumes "attestation publicKeyCreationOptions = Val ''none''"
    and "requestsPSK (creation_extensions publicKeyCreationOptions) = Inr supportRecovery"
  shows
    "(BackupKey_get env st = (Inl failure, st0) \<longrightarrow>
        processCredentialCreation env origin publicKeyCreationOptions pin st = (Inl failure, st0)) \<and>
     (BackupKey_get env st = (Inr bckpKey, st1) \<longrightarrow>
      base64ToByteArray (env_utils env) (psk_id bckpKey) True = Inr credId \<longrightarrow>
      keyExists (byteArrayToBase64 (env_utils env) credId True) st1 = Inr False \<longrightarrow>
      getCompatibleKey (env_crypto env) (pubKeyCredParams publicKeyCreationOptions) (random st1)
        = (Inr compatibleKey, rest) \<longrightarrow>
      processCredentialCreation env origin publicKeyCreationOptions pin st =
        (case (if supportRecovery
               then (case createPSKSetupExtensionOutput env bckpKey of
                       Inl e \<Rightarrow> Inl e
                     | Inr output \<Rightarrow> Inr (Val output))
               else Inr Null) of
           Inl e \<Rightarrow> (Inl e, st1\<lparr>random := rest\<rparr>)
         | Inr extOutput \<Rightarrow>
        (case generateAuthenticatorData (env_crypto env) compatibleKey
                (or_else (rp_id (rp publicKeyCreationOptions))
                   (getDomainFromOrigin (env_utils env) origin)) 0 credId extOutput of
           Inl e \<Rightarrow> (Inl e, st1\<lparr>random := rest\<rparr>)
         | Inr authData \<Rightarrow>
        (case generateClientData (env_crypto env) compatibleKey
                (creation_challenge publicKeyCreationOptions)
                (JObject [(''origin'', JString origin), (''type'', JString ''webauthn.create'')]) of
           Inl e \<Rightarrow> (Inl e, st1\<lparr>random := rest\<rparr>)
         | Inr clientData \<Rightarrow>
        (case saveKey env (byteArrayToBase64 (env_utils env) credId True)
                (ck_privateKey compatibleKey) pin (st1\<lparr>random := rest\<rparr>) of
           (Inl e, st3) \<Rightarrow> (Inl e, st3)
         | (Inr saved, st3) \<Rightarrow>
        (case btoa (env_encoding env) clientData of
           Inl e \<Rightarrow> (Inl e, st3)
         | Inr encoded \<Rightarrow>
        (case base64ToByteArray (env_utils env) encoded False of
           Inl e \<Rightarrow> (Inl e, st3)
         | Inr json \<Rightarrow>
             (Inr (Val \<lparr>pkc_id = byteArrayToBase64 (env_utils env) credId True,
                        rawId = credId,
                        response = AttestationResponse
                          (CBOR_encodeCanonical (env_cbor env)
                             (JObject [(''attStmt'', JObject []), (''authData'', JBytes authData),
                                       (''fmt'', JString ''none'')])) json,
                        pkc_type = ''public-key''\<rparr>), st3))))))))"
  using assms
  by (auto simp: processCredentialCreation_def await_def settled_def reading_def resolve_def
      draw_def Let_def split: sum.splits prod.splits)

lemma example_extension_output:
  "createPSKSetupExtensionOutput example_env (backup_key ''BK1'') = Inr (bytes_of ''bk'')"
  by (simp add: createPSKSetupExtensionOutput_def pskSetupExtensionOutput_def example_env_def
      toy_crypto_def toy_cbor_def toy_cbor_encode_def backup_key_def PSK_def Let_def)

theorem creation_takes_backup_key_witness:
  "attestation psk_creation = Val ''none'' \<and>
   requestsPSK (creation_extensions psk_creation) = Inr True \<and>
   BackupKey_get example_env chrome_empty_pool =
     (Inl (NoKeyAvailable ''backup''), chrome_empty_pool) \<and>
   processCredentialCreation example_env ''https://rp.example'' psk_creation ''0000''
     chrome_empty_pool = (Inl (NoKeyAvailable ''backup''), chrome_empty_pool) \<and>
   BackupKey_get example_env chrome_pool =
     (Inr (backup_key ''BK1''), chrome_pool\<lparr>storage_sync := [''backup'' \<mapsto> []]\<rparr>) \<and>
   base64ToByteArray (env_utils example_env) (psk_id (backup_key ''BK1'')) True =
     Inr (bytes_of ''BK1'') \<and>
   keyExists (byteArrayToBase64 (env_utils example_env) (bytes_of ''BK1'') True)
     (chrome_pool\<lparr>storage_sync := [''backup'' \<mapsto> []]\<rparr>) = Inr False \<and>
   getCompatibleKey (env_crypto example_env) (pubKeyCredParams psk_creation)
     (random (chrome_pool\<lparr>storage_sync := [''backup'' \<mapsto> []]\<rparr>)) =
     (Inr example_fresh, \<lambda>i. word_of_nat (i + 2)) \<and>
   createPSKSetupExtensionOutput example_env (backup_key ''BK1'') = Inr (bytes_of ''bk'') \<and>
   fst (processCredentialCreation example_env ''https://rp.example'' psk_creation ''0000''
          chrome_pool) = Inr (Val psk_credential) \<and>
   storage_sync (snd (processCredentialCreation example_env ''https://rp.example'' psk_creation
                        ''0000'' chrome_pool)) ''backup'' = Some [] \<and>
   sync_wrapped (snd (processCredentialCreation example_env ''https://rp.example'' psk_creation
                        ''0000'' chrome_pool)) ''BK1'' \<noteq> None"
proof -
  let ?st1 = "chrome_pool\<lparr>storage_sync := [''backup'' \<mapsto> []]\<rparr>"
  let ?st2 = "?st1\<lparr>random := \<lambda>i. word_of_nat (i + 2)\<rparr>"
  have att: "attestation psk_creation = Val ''none''"
    "requestsPSK (creation_extensions psk_creation) = Inr True"
    by (simp_all add: psk_creation_def example_creation_def requestsPSK_def PSK_def)
  have none: "BackupKey_get example_env chrome_empty_pool =
      (Inl (NoKeyAvailable ''backup''), chrome_empty_pool)"
    by (simp add: BackupKey_get_def popBackupKey_def popPSKKey_def BACKUP_def await_def
        reading_def reject_def fetchPSKKeys_def chrome_empty_pool_def empty_chrome_def)
  have pop: "BackupKey_get example_env chrome_pool = (Inr (backup_key ''BK1''), ?st1)"
    using toy_pop_single [of chrome_pool "''BK1''"]
    by (simp add: chrome_pool_def empty_chrome_def)
  have dec: "base64ToByteArray (env_utils example_env) (psk_id (backup_key ''BK1'')) True =
     Inr (bytes_of ''BK1'')"
    by (simp add: example_env_def backup_key_def toy_utils_def)
  have enc: "byteArrayToBase64 (env_utils example_env) (bytes_of ''BK1'') True = ''BK1''"
    by (simp add: example_env_def toy_base64_of_text)
  have ex: "keyExists (byteArrayToBase64 (env_utils example_env) (bytes_of ''BK1'') True) ?st1
      = Inr False"
    by (simp add: enc keyExists_def chrome_pool_def empty_chrome_def)
  have gen: "getCompatibleKey (env_crypto example_env) (pubKeyCredParams psk_creation)
      (random ?st1) = (Inr example_fresh, \<lambda>i. word_of_nat (i + 2))"
    by (simp add: example_env_def toy_crypto_def psk_creation_def example_creation_def
        example_fresh_def chrome_pool_def empty_chrome_def)
  have dom: "or_else (rp_id (rp psk_creation))
      (getDomainFromOrigin (env_utils example_env) ''https://rp.example'') = ''rp.example''"
    by (simp add: or_else_def psk_creation_def example_creation_def example_env_def
        toy_utils_def)
  have ad: "generateAuthenticatorData (env_crypto example_env) example_fresh ''rp.example'' 0
      (bytes_of ''BK1'') (Val (bytes_of ''bk'')) =
      Inr (bytes_of ''rp.example'' @ [0] @ bytes_of ''BK1'' @ bytes_of ''bk'')"
    by (simp add: example_env_def toy_crypto_def)
  have cd: "generateClientData (env_crypto example_env) example_fresh
      (creation_challenge psk_creation)
      (JObject [(''origin'', JString ''https://rp.example''), (''type'', JString ''webauthn.create'')])
      = Inr (''https://rp.example'' @ '' '' @ text_of [5, 6])"
    by (simp add: example_env_def toy_crypto_def psk_creation_def example_creation_def)
  have "lastError ?st2 = None" "extractable (ck_privateKey example_fresh)"
    by (simp_all add: chrome_pool_def empty_chrome_def example_fresh_def)
  from toy_saveKey_stores [OF this, of "''BK1''" "''0000''"] obtain payload where
    save: "saveKey example_env ''BK1'' (ck_privateKey example_fresh) ''0000'' ?st2 =
      (Inr (), ?st2\<lparr>random := (\<lambda>i. random ?st2 (i + 3 + 2)),
                    sync_wrapped := (sync_wrapped ?st2)(''BK1'' \<mapsto> payload)\<rparr>)"
    by blast
  have b: "btoa (env_encoding example_env) (''https://rp.example'' @ '' '' @ text_of [5, 6])
      = Inr (''https://rp.example'' @ '' '' @ text_of [5, 6])"
    by (simp add: example_env_def toy_encoding_def)
  have j: "base64ToByteArray (env_utils example_env)
      (''https://rp.example'' @ '' '' @ text_of [5, 6]) False =
      Inr (bytes_of (''https://rp.example'' @ '' '' @ text_of [5, 6]))"
    by (simp add: example_env_def toy_utils_def)
  have cb: "CBOR_encodeCanonical (env_cbor example_env)
      (JObject [(''attStmt'', JObject []),
                (''authData'', JBytes (bytes_of ''rp.example'' @ [0] @ bytes_of ''BK1'' @ bytes_of ''bk'')),
                (''fmt'', JString ''none'')]) =
      bytes_of ''rp.example'' @ [0] @ bytes_of ''BK1'' @ bytes_of ''bk''"
    by (simp add: example_env_def toy_cbor_def toy_cbor_encode_def)
  from creation_takes_backup_key [OF att, of example_env chrome_empty_pool
      "NoKeyAvailable ''backup''" chrome_empty_pool "''https://rp.example''" "''0000''"]
    none
  have fails: "processCredentialCreation example_env ''https://rp.example'' psk_creation ''0000''
     chrome_empty_pool = (Inl (NoKeyAvailable ''backup''), chrome_empty_pool)"
    by simp
  from creation_takes_backup_key [OF att, of example_env chrome_pool _ _
      "''https://rp.example''" "''0000''" "backup_key ''BK1''" ?st1 "bytes_of ''BK1''"
      example_fresh "\<lambda>i. word_of_nat (i + 2)"]
    pop dec ex gen example_extension_output dom ad cd enc save b j cb
  have "processCredentialCreation example_env ''https://rp.example'' psk_creation ''0000''
     chrome_pool =
     (Inr (Val psk_credential),
      ?st2\<lparr>random := (\<lambda>i. random ?st2 (i + 3 + 2)),
            sync_wrapped := (sync_wrapped ?st2)(''BK1'' \<mapsto> payload)\<rparr>)"
    by (simp add: psk_credential_def)
  with att none fails pop dec ex gen example_extension_output show ?thesis
    by simp
qed

section \<open>The recovery flow\<close>

lemma recover_unfold:
  "recover env origin publicKeyRequestOptions pin =
     (case allowCredentials publicKeyRequestOptions of
        Val allow \<Rightarrow>
          (case first_element allow of
             Val requestedCredential \<Rightarrow>
               await (reading (getRecoveryOptions (env_subtle env)
                        (byteArrayToBase64 (env_utils env)
                           (descriptor_id requestedCredential) True)))
                 (recover_rest env publicKeyRequestOptions pin)
           | _ \<Rightarrow> reject TypeError)
      | _ \<Rightarrow> resolve Null)"
  unfolding recover_def recover_rest_def [abs_def] Let_def
  by (simp split: js.splits)

lemma recover_with_options:
  assumes "allowCredentials publicKeyRequestOptions = Val (requestedCredential # others)"
    and "getRecoveryOptions (env_subtle env)
           (byteArrayToBase64 (env_utils env) (descriptor_id requestedCredential) True) st
         = Inr recOps"
  shows "recover env origin publicKeyRequestOptions pin st =
         recover_rest env publicKeyRequestOptions pin recOps st"
  using assms by (simp add: recover_unfold await_def reading_def)

text \<open>
  The flow from the point where the recovery key has been saved: every step that is left,
  with the error of the first one that fails.
\<close>

lemma recover_rest_saved:
  assumes "recoveryKey recOps = Val rk"
    and "opt_delegation recOps = DelegationItem del"
    and "getCompatibleKeyFromCryptoKey (env_crypto env) (psk_key rk) = Inr rkPrv"
    and "parseJWK (env_subtle env) (replacementKey del) = Inr rkPubRaw"
    and "getCompatibleKeyFromCryptoKey (env_crypto env) rkPubRaw = Inr rkPub"
    and "saveKey env (psk_id rk) (ck_privateKey rkPrv) pin st = (Inr (), st3)"
  shows "recover_rest env publicKeyRequestOptions pin recOps st =
     (case generateClientData (env_crypto env) rkPrv (request_challenge publicKeyRequestOptions)
             (JObject [(''origin'', JString ''http://localhost:9005''),
                       (''tokenBinding'', JObject [(''status'', JString ''not-supported'')]),
                       (''type'', JString ''webauthn.get'')]) of
        Inl e \<Rightarrow> (Inl e, st3)
      | Inr clientData \<Rightarrow>
     (case btoa (env_encoding env) clientData of
        Inl e \<Rightarrow> (Inl e, st3)
      | Inr encoded \<Rightarrow>
     (case base64ToByteArray (env_utils env) encoded False of
        Inl e \<Rightarrow> (Inl e, st3)
      | Inr json \<Rightarrow>
     (case digest (env_subtle env) ''SHA-256'' json of
        Inl e \<Rightarrow> (Inl e, st3)
      | Inr clientDataHash \<Rightarrow>
     (case generateAuthenticatorData (env_crypto env) rkPrv
             (or_else (rpId publicKeyRequestOptions)
                (getDomainFromOrigin (env_utils env) ''http://localhost:9005'')) 0 [] Null of
        Inl e \<Rightarrow> (Inl e, st3)
      | Inr authData \<Rightarrow>
     (case sign (env_crypto env) rkPrv (authData @ clientDataHash) (random st3) of
        (Inl e, rest) \<Rightarrow> (Inl e, st3\<lparr>random := rest\<rparr>)
      | (Inr sig, rest) \<Rightarrow>
     (case base64ToByteArray (env_utils env) (psk_id rk) True of
        Inl e \<Rightarrow> (Inl e, st3\<lparr>random := rest\<rparr>)
      | Inr raw \<Rightarrow>
          (Inr (Val \<lparr>pkc_id = psk_id rk, rawId = raw,
                     response = AssertionResponse authData json sig [],
                     pkc_type = ''public-key''\<rparr>), st3\<lparr>random := rest\<rparr>))))))))"
  using assms
  by (simp add: recover_rest_def await_def settled_def resolve_def draw_def Let_def
      split: sum.splits prod.splits)



text \<open>A recovery key is found only for an item that is a delegation.\<close>

lemma first_element_filter: "first_element (filter P xs) = Val x \<Longrightarrow> P x"
proof -
  assume a: "first_element (filter P xs) = Val x"
  then obtain ys where "filter P xs = x # ys" by (cases "filter P xs") simp_all
  then have "x \<in> set (filter P xs)" by simp
  then show "P x" by simp
qed

lemma getRecoveryOptions_delegation:
  assumes "getRecoveryOptions w backupCredentialId st = Inr recOps"
    and "recoveryKey recOps = Val rk"
  shows "\<exists>del. opt_delegation recOps = DelegationItem del \<and> replacementId del = psk_id rk"
  using assms
  by (cases "opt_delegation recOps")
     (auto simp: getRecoveryOptions_def getRecoveryKey_def Let_def
        split: sum.splits js.splits if_splits dest!: first_element_filter)

section \<open>The recovery flow and the delegation's signature\<close>



















section \<open>The recovery flow on two stores\<close>



lemma example_recovery_options:
  "getRecoveryOptions toy_subtle ''A'' chrome_recovery_public =
     Inr \<lparr>recoveryKey = Val recovery_key, opt_delegation = DelegationItem delegation_A\<rparr>"
  by (simp add: getRecoveryOptions_def getDelegation_def fetchDelegations_def getRecoveryKey_def
      fetchPSKKeys_def chrome_recovery_public_def empty_chrome_def delegation_A_def
      DELEGATION_def RECOVERY_def recovery_entry_def toy_parseJWK_public recovery_key_def)

lemma example_recovery_saved:
  "saveKey example_env (psk_id recovery_key) (psk_key recovery_key) ''0000''
     chrome_recovery_public = (Inr (), chrome_recovered)"
proof -
  have "lastError chrome_recovery_public = None" "extractable (psk_key recovery_key)"
    by (simp_all add: chrome_recovery_public_def empty_chrome_def recovery_key_def)
  from toy_saveKey [OF this, of "psk_id recovery_key" "''0000''"] show ?thesis
    by (simp add: chrome_recovered_def recovery_payload_def example_material_def
        chrome_recovery_public_def empty_chrome_def drawn_salt_def drawn_iv_def
        example_constants_def upt_rec numeral_2_eq_2 numeral_3_eq_3 length_bytes_of
        descriptor_def toy_encoding_def ECDSA_P256_text_def hmac_key_def Let_def)
       (simp add: recovery_key_def)
qed





text \<open>
  C9. For any two origins given by the caller, and the same environment, options, PIN and
  state, the recovery flow has the same outcome and leaves the same state. Client data
  and relying party id are computed from the origin that the flow assigns first,
  \<^verbatim>\<open>'http://localhost:9005'\<close>: once the recovery key is found, the keys are accepted and
  the recovery key is saved, the client data is generated with that origin whatever
  origin the caller gave, the relying party id is the one of the request or else the
  domain of that origin, and the assertion carries the authenticator data for this
  relying party id, the client data, and the signature over both.
\<close>

theorem recover_ignores_origin:
  "recover env origin1 publicKeyRequestOptions pin st =
     recover env origin2 publicKeyRequestOptions pin st \<and>
   (allowCredentials publicKeyRequestOptions = Val (requestedCredential # others) \<longrightarrow>
    getRecoveryOptions (env_subtle env)
      (byteArrayToBase64 (env_utils env) (descriptor_id requestedCredential) True) st
      = Inr recOps \<longrightarrow>
    recoveryKey recOps = Val rk \<longrightarrow>
    opt_delegation recOps = DelegationItem del \<longrightarrow>
    getCompatibleKeyFromCryptoKey (env_crypto env) (psk_key rk) = Inr rkPrv \<longrightarrow>
    parseJWK (env_subtle env) (replacementKey del) = Inr rkPubRaw \<longrightarrow>
    getCompatibleKeyFromCryptoKey (env_crypto env) rkPubRaw = Inr rkPub \<longrightarrow>
    saveKey env (psk_id rk) (ck_privateKey rkPrv) pin st = (Inr (), st3) \<longrightarrow>
    recover env origin1 publicKeyRequestOptions pin st =
     (case generateClientData (env_crypto env) rkPrv (request_challenge publicKeyRequestOptions)
             (JObject [(''origin'', JString ''http://localhost:9005''),
                       (''tokenBinding'', JObject [(''status'', JString ''not-supported'')]),
                       (''type'', JString ''webauthn.get'')]) of
        Inl e \<Rightarrow> (Inl e, st3)
      | Inr clientData \<Rightarrow>
     (case btoa (env_encoding env) clientData of
        Inl e \<Rightarrow> (Inl e, st3)
      | Inr encoded \<Rightarrow>
     (case base64ToByteArray (env_utils env) encoded False of
        Inl e \<Rightarrow> (Inl e, st3)
      | Inr json \<Rightarrow>
     (case digest (env_subtle env) ''SHA-256'' json of
        Inl e \<Rightarrow> (Inl e, st3)
      | Inr clientDataHash \<Rightarrow>
     (case generateAuthenticatorData (env_crypto env) rkPrv
             (or_else (rpId publicKeyRequestOptions)
                (getDomainFromOrigin (env_utils env) ''http://localhost:9005'')) 0 [] Null of
        Inl e \<Rightarrow> (Inl e, st3)
      | Inr authData \<Rightarrow>
     (case sign (env_crypto env) rkPrv (authData @ clientDataHash) (random st3) of
        (Inl e, rest) \<Rightarrow> (Inl e, st3\<lparr>random := rest\<rparr>)
      | (Inr sig, rest) \<Rightarrow>
     (case base64ToByteArray (env_utils env) (psk_id rk) True of
        Inl e \<Rightarrow> (Inl e, st3\<lparr>random := rest\<rparr>)
      | Inr raw \<Rightarrow>
          (Inr (Val \<lparr>pkc_id = psk_id rk, rawId = raw,
                     response = AssertionResponse authData json sig [],
                     pkc_type = ''public-key''\<rparr>), st3\<lparr>random := rest\<rparr>)))))))))"
proof -
  have "recover env origin1 publicKeyRequestOptions pin st =
     recover env origin2 publicKeyRequestOptions pin st"
    by (simp add: recover_def)
  moreover have "recover env origin1 publicKeyRequestOptions pin st =
      recover_rest env publicKeyRequestOptions pin recOps st"
    if "allowCredentials publicKeyRequestOptions = Val (requestedCredential # others)"
      and "getRecoveryOptions (env_subtle env)
        (byteArrayToBase64 (env_utils env) (descriptor_id requestedCredential) True) st
        = Inr recOps"
    using that by (rule recover_with_options)
  ultimately show ?thesis
    using recover_rest_saved [of recOps rk del env rkPrv rkPubRaw rkPub pin st st3
        publicKeyRequestOptions]
    by simp
qed

theorem recover_ignores_origin_witness:
  "recover example_env ''https://rp.example'' recovery_request ''0000'' chrome_recovery_public =
   recover example_env ''https://other.example'' recovery_request ''0000''
     chrome_recovery_public \<and>
   allowCredentials recovery_request = Val [descriptor_of ''A''] \<and>
   getRecoveryOptions (env_subtle example_env)
     (byteArrayToBase64 (env_utils example_env) (descriptor_id (descriptor_of ''A'')) True)
     chrome_recovery_public =
     Inr \<lparr>recoveryKey = Val recovery_key, opt_delegation = DelegationItem delegation_A\<rparr> \<and>
   getCompatibleKeyFromCryptoKey (env_crypto example_env) (psk_key recovery_key) =
     Inr \<lparr>ck_algorithm = - 7, ck_privateKey = psk_key recovery_key, ck_publicKey = Null\<rparr> \<and>
   parseJWK (env_subtle example_env) (replacementKey delegation_A) =
     Inr \<lparr>key_type = Public, extractable = True, algorithm = ECDSA_P256, usages = [],
          handle = bytes_of ''ra''\<rparr> \<and>
   saveKey example_env (psk_id recovery_key) (psk_key recovery_key) ''0000''
     chrome_recovery_public = (Inr (), chrome_recovered) \<and>
   generateClientData (env_crypto example_env)
     \<lparr>ck_algorithm = - 7, ck_privateKey = psk_key recovery_key, ck_publicKey = Null\<rparr>
     (request_challenge recovery_request)
     (JObject [(''origin'', JString ''http://localhost:9005''),
               (''tokenBinding'', JObject [(''status'', JString ''not-supported'')]),
               (''type'', JString ''webauthn.get'')]) =
     Inr (''http://localhost:9005'' @ '' '' @ text_of [5, 6]) \<and>
   generateClientData (env_crypto example_env)
     \<lparr>ck_algorithm = - 7, ck_privateKey = psk_key recovery_key, ck_publicKey = Null\<rparr>
     (request_challenge recovery_request)
     (JObject [(''origin'', JString ''https://rp.example''),
               (''tokenBinding'', JObject [(''status'', JString ''not-supported'')]),
               (''type'', JString ''webauthn.get'')]) =
     Inr (''https://rp.example'' @ '' '' @ text_of [5, 6]) \<and>
   or_else (rpId recovery_request)
     (getDomainFromOrigin (env_utils example_env) ''https://rp.example'') = ''rp.example'' \<and>
   or_else (rpId recovery_request)
     (getDomainFromOrigin (env_utils example_env) ''http://localhost:9005'') = ''localhost'' \<and>
   generateAuthenticatorData (env_crypto example_env)
     \<lparr>ck_algorithm = - 7, ck_privateKey = psk_key recovery_key, ck_publicKey = Null\<rparr>
     ''localhost'' 0 [] Null = Inr (bytes_of ''localhost'' @ [0]) \<and>
   recover example_env ''https://rp.example'' recovery_request ''0000'' chrome_recovery_public =
     (Inl InvalidAccessError, chrome_recovered)"
proof -
  let ?ro = "\<lparr>recoveryKey = Val recovery_key, opt_delegation = DelegationItem delegation_A\<rparr>"
  let ?prv = "\<lparr>ck_algorithm = - 7, ck_privateKey = psk_key recovery_key, ck_publicKey = Null\<rparr>"
  let ?pub = "\<lparr>key_type = Public, extractable = True, algorithm = ECDSA_P256, usages = [],
               handle = bytes_of ''ra''\<rparr>"
  have a: "allowCredentials recovery_request = Val [descriptor_of ''A'']"
    by (simp add: recovery_request_def)
  have 0: "getRecoveryOptions (env_subtle example_env)
      (byteArrayToBase64 (env_utils example_env) (descriptor_id (descriptor_of ''A'')) True)
      chrome_recovery_public = Inr ?ro"
    by (simp add: example_env_def toy_base64_descriptor example_recovery_options)
  have 2: "getCompatibleKeyFromCryptoKey (env_crypto example_env) (psk_key recovery_key)
      = Inr ?prv"
    by (simp add: example_env_def toy_crypto_def)
  have 3: "parseJWK (env_subtle example_env) (replacementKey delegation_A) = Inr ?pub"
    by (simp add: example_env_def delegation_A_def toy_parseJWK)
  have 4: "getCompatibleKeyFromCryptoKey (env_crypto example_env) ?pub =
      Inr \<lparr>ck_algorithm = - 7, ck_privateKey = ?pub, ck_publicKey = Null\<rparr>"
    by (simp add: example_env_def toy_crypto_def)
  have cd: "generateClientData (env_crypto example_env) ?prv (request_challenge recovery_request)
     (JObject [(''origin'', JString ''http://localhost:9005''),
               (''tokenBinding'', JObject [(''status'', JString ''not-supported'')]),
               (''type'', JString ''webauthn.get'')]) =
     Inr (''http://localhost:9005'' @ '' '' @ text_of [5, 6])"
    by (simp add: example_env_def toy_crypto_def recovery_request_def)
  have dom: "or_else (rpId recovery_request)
      (getDomainFromOrigin (env_utils example_env) ''http://localhost:9005'') = ''localhost''"
    by (simp add: or_else_def recovery_request_def example_env_def toy_utils_def)
  have ad: "generateAuthenticatorData (env_crypto example_env) ?prv ''localhost'' 0 [] Null =
      Inr (bytes_of ''localhost'' @ [0])"
    by (simp add: example_env_def toy_crypto_def)
  have rest: "btoa (env_encoding example_env) s = Inr s"
    "base64ToByteArray (env_utils example_env) s False = Inr (bytes_of s)"
    "digest (env_subtle example_env) ''SHA-256'' b = Inr (toy_digest b)"
    "sign (env_crypto example_env) ?prv b rnd = (Inl InvalidAccessError, rnd)" for s b rnd
    by (simp_all add: example_env_def toy_encoding_def toy_utils_def toy_subtle_def
        toy_crypto_def recovery_key_def)
  note run = recover_ignores_origin [of example_env "''https://rp.example''" recovery_request
      "''0000''" chrome_recovery_public "''https://other.example''" "descriptor_of ''A''" "[]"
      ?ro recovery_key delegation_A ?prv ?pub
      "\<lparr>ck_algorithm = - 7, ck_privateKey = ?pub, ck_publicKey = Null\<rparr>" chrome_recovered]
  from run [THEN conjunct2] a 0 2 3 4 example_recovery_saved cd dom ad rest
  have "recover example_env ''https://rp.example'' recovery_request ''0000''
      chrome_recovery_public = (Inl InvalidAccessError, chrome_recovered)"
    by simp
  moreover have "generateClientData (env_crypto example_env) ?prv
     (request_challenge recovery_request)
     (JObject [(''origin'', JString ''https://rp.example''),
               (''tokenBinding'', JObject [(''status'', JString ''not-supported'')]),
               (''type'', JString ''webauthn.get'')]) =
     Inr (''https://rp.example'' @ '' '' @ text_of [5, 6])"
    by (simp add: example_env_def toy_crypto_def recovery_request_def)
  moreover have "or_else (rpId recovery_request)
      (getDomainFromOrigin (env_utils example_env) ''https://rp.example'') = ''rp.example''"
    by (simp add: or_else_def recovery_request_def example_env_def toy_utils_def)
  ultimately show ?thesis
    using run [THEN conjunct1] a 0 2 3 example_recovery_saved cd dom ad by simp
qed

section \<open>Popping a key: the guarded pop\<close>

text \<open>
  On \<open>popPSKKey\<close> the three parts of C7 hold: the last key is returned and the others
  are stored, the empty pool is refused, and successive pops return the pool in reverse,
  so that with pairwise distinct ids in the pool no id is returned twice.
\<close>

lemma exportKeys_parseKeys:
  "keys_reimport w ks \<Longrightarrow>
     \<exists>es. exportKeys w ks = Inr es \<and> parseKeys w (map KeyItem es) = Inr ks"
proof (induction ks)
  case Nil
  then show ?case by simp
next
  case (Cons k ks)
  from Cons.prems obtain jwk where
    jwk: "exportKey w ''jwk'' (psk_key k) = Inr jwk" "parseJWK w jwk = Inr (psk_key k)"
    by (auto simp: keys_reimport_def)
  from Cons.prems have "keys_reimport w ks" by (simp add: keys_reimport_def)
  with Cons.IH obtain es where "exportKeys w ks = Inr es" "parseKeys w (map KeyItem es) = Inr ks"
    by blast
  with jwk show ?case by simp
qed

lemma popPSKKey_empty:
  assumes "fetchPSKKeys w identifier st = Inr []"
  shows "popPSKKey w identifier st = (Inl (NoKeyAvailable identifier), st)"
  using assms by (simp add: popPSKKey_def await_def reading_def reject_def)

lemma popPSKKey_last:
  assumes "fetchPSKKeys w identifier st = Inr ks" and "ks \<noteq> []"
    and "keys_reimport w (butlast ks)"
  shows "\<exists>st'. popPSKKey w identifier st = (Inr (last ks), st') \<and>
               fetchPSKKeys w identifier st' = Inr (butlast ks)"
proof -
  from exportKeys_parseKeys [OF assms(3)] obtain es where
    es: "exportKeys w (butlast ks) = Inr es" "parseKeys w (map KeyItem es) = Inr (butlast ks)"
    by blast
  from assms(1) have ok: "lastError st = None"
    by (auto simp: fetchPSKKeys_def split: option.splits)
  with es assms(1,2) show ?thesis
    by (simp add: popPSKKey_def await_def reading_def resolve_def storePSKKeys_def
        fetchPSKKeys_def Let_def)
qed

lemma keys_reimport_butlast: "keys_reimport w ks \<Longrightarrow> keys_reimport w (butlast ks)"
  by (auto simp: keys_reimport_def dest: in_set_butlastD)

lemma pops_returns:
  assumes "fetchPSKKeys w identifier st = Inr ks" and "keys_reimport w ks"
  shows "fst (pops w identifier n st) = take n (rev ks)"
  using assms
proof (induction n arbitrary: st ks)
  case 0
  then show ?case by simp
next
  case (Suc n)
  show ?case
  proof (cases "ks = []")
    case True
    with Suc.prems have "fetchPSKKeys w identifier st = Inr []" by simp
    from popPSKKey_empty [OF this] True show ?thesis by simp
  next
    case False
    then obtain ys y where ks: "ks = ys @ [y]" by (metis rev_exhaust)
    from popPSKKey_last [OF Suc.prems(1) False keys_reimport_butlast [OF Suc.prems(2)]]
    obtain st' where pop: "popPSKKey w identifier st = (Inr y, st')"
      and rest: "fetchPSKKeys w identifier st' = Inr ys" by (auto simp: ks)
    from keys_reimport_butlast [OF Suc.prems(2)] have "keys_reimport w ys" by (simp add: ks)
    from Suc.IH [OF rest this] have "fst (pops w identifier n st') = take n (rev ys)" .
    with pop show ?thesis by (auto simp: ks split: prod.splits)
  qed
qed

lemma pops_distinct:
  assumes "fetchPSKKeys w identifier st = Inr ks" and "keys_reimport w ks"
    and "distinct (map psk_id ks)"
  shows "distinct (map psk_id (fst (pops w identifier n st)))"
proof -
  from assms(3) have "distinct (map psk_id (rev ks))" by (simp add: rev_map [symmetric])
  then have "distinct (take n (map psk_id (rev ks)))" by (rule distinct_take)
  with pops_returns [OF assms(1,2)] show ?thesis by (simp add: take_map)
qed

section \<open>The recovery gate\<close>

text \<open>
  A request with the recovery extension whose first offered id has no delegation fails,
  on the read of \<^verbatim>\<open>del.replacementId\<close>, and the loop of the normal lookup is not entered.
\<close>

lemma recovery_request_without_delegation:
  assumes "allowCredentials publicKeyRequestOptions = Val (requestedCredential # others)"
    and "requestsPSK (request_extensions publicKeyRequestOptions) = Inr True"
    and "lastError st = None" and "storage_sync st DELEGATION = Some del"
    and "\<forall>x \<in> set del. item_backupId x \<noteq>
           Val (byteArrayToBase64 (env_utils env) (descriptor_id requestedCredential) True)"
  shows "processCredentialRequest env origin publicKeyRequestOptions pin st = (Inl TypeError, st)"
  using assms getRecoveryOptions_no_delegation [OF assms(3,4,5), of "env_subtle env"]
  by (simp add: processCredentialRequest_def recover_def await_def settled_def reading_def
      Let_def)

end
